theory Spec2Isabelle
  imports Complex_Main
begin

section \<open>Data model\<close>

text \<open>
  The program is RcppML.cpp: non-negative least squares (NNLS), projection of a linear
  factor model and matrix factorization by alternating least squares, written against
  Eigen and Rcpp.

  A C++ \<open>double\<close> is modelled by a \<open>real\<close>: arithmetic is exact, there is no rounding, no
  NaN and no infinity. A division by zero and the square root of a negative number, which
  give an infinity or a NaN in C++, have a value in HOL (\<open>x / 0 = 0\<close> and
  \<open>sqrt (- x) = - sqrt x\<close>). The properties below that go through such an operation exclude
  it by a hypothesis, are evaluated on inputs where it does not occur, or hold whatever
  its value is. An \<open>unsigned int\<close> loop bound or counter is a \<open>nat\<close>: every counter
  of the source stays below its bound, so none of them wraps.

  An \<open>Eigen::VectorXd\<close> is the list of its coefficients. An \<open>Eigen::MatrixXd\<close> (and an
  \<open>Rcpp::NumericMatrix\<close>) is the list of its rows, so \<open>M ! i ! j\<close> is \<open>M(i, j)\<close>; a matrix
  without rows has no columns in this representation.
\<close>

type_synonym vec = "real list"
type_synonym mat = "real list list"

definition nrows :: "mat \<Rightarrow> nat" where
  "nrows M = length M"

definition ncols :: "mat \<Rightarrow> nat" where
  "ncols M = (case M of [] \<Rightarrow> 0 | r # _ \<Rightarrow> length r)"

text \<open>\<open>M.col(j)\<close> and \<open>M.row(i)\<close> (the latter is \<open>M ! i\<close>).\<close>

definition mcol :: "mat \<Rightarrow> nat \<Rightarrow> vec" where
  "mcol M j = map (\<lambda>r. r ! j) M"

definition dot :: "vec \<Rightarrow> vec \<Rightarrow> real" where
  "dot u v = sum_list (map2 (*) u v)"

text \<open>\<open>M * v\<close>, the matrix-vector product.\<close>

definition mat_vec :: "mat \<Rightarrow> vec \<Rightarrow> vec" where
  "mat_vec M v = map (\<lambda>r. dot r v) M"

text \<open>\<open>M.transpose()\<close>.\<close>

definition transpose_mat :: "mat \<Rightarrow> mat" where
  "transpose_mat M = map (\<lambda>j. mcol M j) [0..<ncols M]"

text \<open>\<open>M * N.transpose()\<close>: the coefficient at \<open>(i, j)\<close> is the dot product of row \<open>i\<close> of \<open>M\<close>
  and row \<open>j\<close> of \<open>N\<close>.\<close>

definition mult_transpose :: "mat \<Rightarrow> mat \<Rightarrow> mat" where
  "mult_transpose M N = map (\<lambda>r. map (\<lambda>s. dot r s) N) M"

section \<open>Coordinate descent least squares: \<open>c_cdnnls\<close>\<close>

text \<open>
  The proposal for coordinate \<open>i\<close> is \<open>xi = x(i) - b0(i) / a(i, i)\<close>, set to 0 when
  \<open>nonneg\<close> and it is negative. The body of the inner loop then updates the gradient, the
  sweep statistic and \<open>x(i)\<close> when \<open>xi != x(i)\<close>. The state is \<open>(x, b0, cd_tol_it)\<close>:
  the current solution, the gradient \<open>a * x - b\<close> and the largest relative change seen in
  this sweep.
\<close>

definition cd_proposal :: "mat \<Rightarrow> bool \<Rightarrow> vec \<Rightarrow> vec \<Rightarrow> nat \<Rightarrow> real" where
  "cd_proposal a nonneg x b0 i =
     (let xi = x ! i - b0 ! i / (a ! i ! i) in if nonneg \<and> xi < 0 then 0 else xi)"

definition cd_update :: "mat \<Rightarrow> bool \<Rightarrow> nat \<Rightarrow> vec \<times> vec \<times> real \<Rightarrow> vec \<times> vec \<times> real" where
  "cd_update a nonneg i s =
     (case s of (x, b0, cd_tol_it) \<Rightarrow>
       (let xi = cd_proposal a nonneg x b0 i
        in if xi = x ! i then (x, b0, cd_tol_it)
           else
             (let b0' = map2 (+) b0 (map (\<lambda>c. c * (xi - x ! i)) (mcol a i));
                  cd_tol_xi = 2 * \<bar>x ! i - xi\<bar> / (xi + x ! i + 1 / 10 ^ 16);
                  cd_tol_it' = (if cd_tol_xi > cd_tol_it then cd_tol_xi else cd_tol_it)
              in (x[i := xi], b0', cd_tol_it'))))"

text \<open>One sweep: \<open>cd_tol_it = 0\<close>, then the coordinates \<open>0 .. x.size() - 1\<close> in order.\<close>

definition cd_sweep :: "mat \<Rightarrow> bool \<Rightarrow> vec \<Rightarrow> vec \<Rightarrow> vec \<times> vec \<times> real" where
  "cd_sweep a nonneg x b0 = fold (cd_update a nonneg) [0..<length x] (x, b0, 0)"

text \<open>
  The outer loop \<open>for (it = 0; it < cd_maxit && cd_tol_it > cd_tol; ++it)\<close>. The result is
  the final \<open>x\<close> together with the number of sweeps that ran.
\<close>

function cd_loop :: "mat \<Rightarrow> bool \<Rightarrow> nat \<Rightarrow> real \<Rightarrow> nat \<Rightarrow> vec \<times> vec \<times> real \<Rightarrow> vec \<times> nat" where
  "cd_loop a nonneg cd_maxit cd_tol it (x, b0, cd_tol_it) =
     (if it < cd_maxit \<and> cd_tol_it > cd_tol
      then cd_loop a nonneg cd_maxit cd_tol (Suc it) (cd_sweep a nonneg x b0)
      else (x, it))"
  by pat_completeness auto
termination
  by (relation "measure (\<lambda>(a, nonneg, cd_maxit, cd_tol, it, s). cd_maxit - it)") auto

declare cd_loop.simps [simp del]

text \<open>The gradient at the start: \<open>b0 = a * x\<close>, then \<open>b0(i) -= b(i)\<close> for every \<open>i\<close>.\<close>

definition cd_gradient :: "mat \<Rightarrow> vec \<Rightarrow> vec \<Rightarrow> vec" where
  "cd_gradient a b x = (let b0 = mat_vec a x in map (\<lambda>i. b0 ! i - b ! i) [0..<length b0])"

definition c_cdnnls_sweeps :: "mat \<Rightarrow> vec \<Rightarrow> vec \<Rightarrow> nat \<Rightarrow> real \<Rightarrow> bool \<Rightarrow> vec \<times> nat" where
  "c_cdnnls_sweeps a b x cd_maxit cd_tol nonneg =
     cd_loop a nonneg cd_maxit cd_tol 0 (x, cd_gradient a b x, 1 + cd_tol)"

definition c_cdnnls :: "mat \<Rightarrow> vec \<Rightarrow> vec \<Rightarrow> nat \<Rightarrow> real \<Rightarrow> bool \<Rightarrow> vec" where
  "c_cdnnls a b x cd_maxit cd_tol nonneg = fst (c_cdnnls_sweeps a b x cd_maxit cd_tol nonneg)"

section \<open>Cholesky solve: Eigen's \<open>LLT\<close>\<close>

text \<open>
  \<open>a.llt()\<close> and \<open>LLT::solve\<close> belong to Eigen, not to this program. They are modelled by
  the textbook algorithm in exact arithmetic: the lower factor \<open>L\<close> with \<open>L * L\<^sup>T = a\<close>, built
  row by row from the lower triangle of \<open>a\<close>, then a forward and a backward substitution.
  Row \<open>i\<close> of the factor is kept as the list \<open>L(i, 0) .. L(i, i)\<close>. On a matrix that is not
  positive definite Eigen stops with \<open>NumericalIssue\<close> and what \<open>solve\<close> returns is not
  specified; nothing below depends on the model there.
\<close>

definition chol_row :: "vec \<Rightarrow> mat \<Rightarrow> vec" where
  "chol_row ai L =
     (let acc = foldl (\<lambda>acc Lj. acc @ [(ai ! length acc - dot acc (butlast Lj)) / last Lj]) [] L
      in acc @ [sqrt (ai ! length acc - dot acc acc)])"

definition cholesky :: "mat \<Rightarrow> mat" where
  "cholesky a = foldl (\<lambda>L ai. L @ [chol_row ai L]) [] a"

definition forward_subst :: "mat \<Rightarrow> vec \<Rightarrow> vec" where
  "forward_subst L b =
     foldl (\<lambda>y i. y @ [(b ! i - dot (butlast (L ! i)) y) / last (L ! i)]) [] [0..<length L]"

definition backward_subst :: "mat \<Rightarrow> vec \<Rightarrow> vec" where
  "backward_subst L y =
     foldr (\<lambda>i xs. ((y ! i - dot (map (\<lambda>j. L ! j ! i) [Suc i..<length L]) xs) / (L ! i ! i)) # xs)
       [0..<length L] []"

definition llt_solve :: "mat \<Rightarrow> vec \<Rightarrow> vec" where
  "llt_solve a b = (let L = cholesky a in backward_subst L (forward_subst L b))"

section \<open>Fast active set tuning: \<open>c_nnls\<close>\<close>

text \<open>\<open>find_gtz\<close>: the indices of the coefficients greater than zero, in increasing order.\<close>

definition find_gtz :: "vec \<Rightarrow> nat list" where
  "find_gtz x = filter (\<lambda>i. x ! i > 0) [0..<length x]"

text \<open>\<open>submat\<close>: the matrix of the coefficients at the given row and column indices.\<close>

definition submat :: "mat \<Rightarrow> nat list \<Rightarrow> nat list \<Rightarrow> mat" where
  "submat arg row_indices col_indices =
     map (\<lambda>r. map (\<lambda>c. arg ! r ! c) col_indices) row_indices"

text \<open>
  The body of the feasible set reduction loop: solve on the indices where \<open>x\<close> is positive,
  set \<open>x\<close> to zero and write the solution back at those indices.
\<close>

definition fast_round :: "mat \<Rightarrow> vec \<Rightarrow> vec \<Rightarrow> vec" where
  "fast_round a b x =
     (let gtz_ind = find_gtz x;
          bsub = map (\<lambda>i. b ! i) gtz_ind;
          asub = submat a gtz_ind gtz_ind;
          xsub = llt_solve asub bsub
      in fold (\<lambda>i x'. x'[gtz_ind ! i := xsub ! i]) [0..<length gtz_ind]
           (replicate (length x) 0))"

text \<open>
  \<open>for (it = 0; nonneg && it < fast_maxit && (x.array() < 0).any(); ++it)\<close>.
\<close>

function fast_loop :: "mat \<Rightarrow> vec \<Rightarrow> bool \<Rightarrow> nat \<Rightarrow> nat \<Rightarrow> vec \<Rightarrow> vec" where
  "fast_loop a b nonneg fast_maxit it x =
     (if nonneg \<and> it < fast_maxit \<and> list_ex (\<lambda>v. v < 0) x
      then fast_loop a b nonneg fast_maxit (Suc it) (fast_round a b x)
      else x)"
  by pat_completeness auto
termination
  by (relation "measure (\<lambda>(a, b, nonneg, fast_maxit, it, x). fast_maxit - it)") auto

declare fast_loop.simps [simp del]



text \<open>
  \<open>c_nnls\<close> receives the decomposition \<open>a_llt\<close> of \<open>a\<close> from its caller and only calls its
  \<open>solve\<close>: the argument \<open>a_llt\<close> of the model is that function.
\<close>

definition c_nnls :: "mat \<Rightarrow> vec \<Rightarrow> (vec \<Rightarrow> vec) \<Rightarrow> nat \<Rightarrow> nat \<Rightarrow> real \<Rightarrow> bool \<Rightarrow> vec" where
  "c_nnls a b a_llt fast_maxit cd_maxit cd_tol nonneg =
     (let x = fast_loop a b nonneg fast_maxit 0 (a_llt b)
      in if cd_maxit = 0 \<and> nonneg then x
         else c_cdnnls a b x cd_maxit cd_tol nonneg)"

section \<open>Helper subroutines\<close>

text \<open>
  \<open>sort_index\<close>: the indices \<open>0 .. d.size() - 1\<close>, sorted by \<open>std::sort\<close> with the comparator
  \<open>d[i1] > d[i2]\<close>. \<open>std::sort\<close> belongs to the C++ standard library, not to this program.
  The standard asks that the result is a permutation of the range in the order of the
  comparator and leaves the order of elements that compare equal open, so libraries
  differ there. The sort of the library is therefore an argument \<open>std_sort\<close> of the model:
  it takes the comparator and the range.
\<close>

type_synonym sorter = "(nat \<Rightarrow> nat \<Rightarrow> bool) \<Rightarrow> nat list \<Rightarrow> nat list"

definition sort_index :: "sorter \<Rightarrow> vec \<Rightarrow> nat list" where
  "sort_index std_sort d = std_sort (\<lambda>i1 i2. d ! i1 > d ! i2) [0..<length d]"

text \<open>\<open>reorder_rows\<close>: a zero matrix of the shape of \<open>x\<close> whose row \<open>i\<close> is set to row \<open>ind[i]\<close> of \<open>x\<close>.\<close>

definition reorder_rows :: "mat \<Rightarrow> nat list \<Rightarrow> mat" where
  "reorder_rows x ind =
     fold (\<lambda>i x_reordered. x_reordered[i := x ! (ind ! i)]) [0..<length ind]
       (replicate (nrows x) (replicate (ncols x) 0))"

definition reorder :: "vec \<Rightarrow> nat list \<Rightarrow> vec" where
  "reorder x ind =
     fold (\<lambda>i x_reordered. x_reordered[i := x ! (ind ! i)]) [0..<length ind]
       (replicate (length x) 0)"

text \<open>
  \<open>cor\<close>: one minus the Pearson correlation of two matrices read as vectors through
  \<open>data()\<close>, that is column by column. The five sums of the loop are written as sums over
  the index \<open>0 .. n - 1\<close>.
\<close>

definition flatten :: "mat \<Rightarrow> vec" where
  "flatten x = concat (transpose_mat x)"

definition cor :: "mat \<Rightarrow> mat \<Rightarrow> real" where
  "cor x y =
     (let xs = flatten x; ys = flatten y; n = length xs;
          sum_x = (\<Sum>i\<leftarrow>[0..<n]. xs ! i);
          sum_y = (\<Sum>i\<leftarrow>[0..<n]. ys ! i);
          sum_xy = (\<Sum>i\<leftarrow>[0..<n]. xs ! i * ys ! i);
          sum_x2 = (\<Sum>i\<leftarrow>[0..<n]. xs ! i * xs ! i);
          sum_y2 = (\<Sum>i\<leftarrow>[0..<n]. ys ! i * ys ! i)
      in 1 - (real n * sum_xy - sum_x * sum_y) /
             sqrt ((real n * sum_x2 - sum_x * sum_x) * (real n * sum_y2 - sum_y * sum_y)))"

section \<open>The sort of GNU libstdc++\<close>

text \<open>
  One library's \<open>std::sort\<close>, to run the drivers on concrete inputs: the introsort of GNU
  libstdc++ (\<open>std::__sort\<close> in \<open>bits/stl_algo.h\<close>), on the list of the range. Ranges of at
  most 16 elements are sorted by insertion alone. A longer range is first partitioned
  around the median of three elements, the part after the cut by recursion and the part
  before it by the loop, until every part has at most 16 elements; a final insertion
  sort finishes. The scans that libstdc++ leaves unguarded stop at the ends of the
  list. When the depth limit \<open>2 * lg n\<close> is used up libstdc++ sorts the part by heap sort;
  the model leaves such a part to the final insertion sort.
\<close>

text \<open>\<open>__unguarded_linear_insert\<close>: the element at \<open>lst\<close> moves down past every element it
  precedes in the order of the comparator \<open>cmp\<close>.\<close>

function linear_shift :: "(nat \<Rightarrow> nat \<Rightarrow> bool) \<Rightarrow> nat \<Rightarrow> nat \<Rightarrow> nat list \<Rightarrow> nat list" where
  "linear_shift cmp val lst xs =
     (if 0 < lst \<and> cmp val (xs ! (lst - 1))
      then linear_shift cmp val (lst - 1) (xs[lst := xs ! (lst - 1)])
      else xs[lst := val])"
  by pat_completeness auto
termination
  by (relation "measure (\<lambda>(cmp, val, lst, xs). lst)") auto

declare linear_shift.simps [simp del]

definition unguarded_linear_insert :: "(nat \<Rightarrow> nat \<Rightarrow> bool) \<Rightarrow> nat \<Rightarrow> nat list \<Rightarrow> nat list" where
  "unguarded_linear_insert cmp lst xs = linear_shift cmp (xs ! lst) lst xs"

text \<open>
  \<open>__insertion_sort\<close> on the elements before \<open>lst\<close>: an element that precedes the first
  one is moved to the front, any other is inserted by \<open>__unguarded_linear_insert\<close>.
\<close>

definition insertion_step :: "(nat \<Rightarrow> nat \<Rightarrow> bool) \<Rightarrow> nat \<Rightarrow> nat list \<Rightarrow> nat list" where
  "insertion_step cmp i xs =
     (if cmp (xs ! i) (xs ! 0) then xs ! i # take i xs @ drop (Suc i) xs
      else unguarded_linear_insert cmp i xs)"

definition insertion_sort_upto :: "(nat \<Rightarrow> nat \<Rightarrow> bool) \<Rightarrow> nat \<Rightarrow> nat list \<Rightarrow> nat list" where
  "insertion_sort_upto cmp lst xs = fold (insertion_step cmp) [1..<lst] xs"

definition insertion_sort :: sorter where
  "insertion_sort cmp xs = insertion_sort_upto cmp (length xs) xs"

text \<open>\<open>__final_insertion_sort\<close>, with the threshold 16.\<close>

definition final_insertion_sort :: "(nat \<Rightarrow> nat \<Rightarrow> bool) \<Rightarrow> nat list \<Rightarrow> nat list" where
  "final_insertion_sort cmp xs =
     (if length xs > 16
      then fold (unguarded_linear_insert cmp) [16..<length xs] (insertion_sort_upto cmp 16 xs)
      else insertion_sort_upto cmp (length xs) xs)"

definition iter_swap :: "nat \<Rightarrow> nat \<Rightarrow> nat list \<Rightarrow> nat list" where
  "iter_swap i j xs = (xs[i := xs ! j])[j := xs ! i]"

text \<open>\<open>__move_median_to_first\<close>: the median of the elements at \<open>a\<close>, \<open>b\<close> and \<open>c\<close> is swapped
  to \<open>result\<close>.\<close>

definition move_median_to_first ::
  "(nat \<Rightarrow> nat \<Rightarrow> bool) \<Rightarrow> nat \<Rightarrow> nat \<Rightarrow> nat \<Rightarrow> nat \<Rightarrow> nat list \<Rightarrow> nat list" where
  "move_median_to_first cmp result a b c xs =
     (if cmp (xs ! a) (xs ! b)
      then (if cmp (xs ! b) (xs ! c) then iter_swap result b xs
            else if cmp (xs ! a) (xs ! c) then iter_swap result c xs
            else iter_swap result a xs)
      else if cmp (xs ! a) (xs ! c) then iter_swap result a xs
      else if cmp (xs ! b) (xs ! c) then iter_swap result c xs
      else iter_swap result b xs)"

text \<open>
  \<open>__unguarded_partition\<close> with the pivot at index \<open>pivot\<close>: the two inner scans, then the
  loop that swaps the elements the scans stop at. The result is the cut and the list.
\<close>

function scan_up :: "(nat \<Rightarrow> nat \<Rightarrow> bool) \<Rightarrow> nat list \<Rightarrow> nat \<Rightarrow> nat \<Rightarrow> nat" where
  "scan_up cmp xs pivot first =
     (if first < length xs \<and> cmp (xs ! first) (xs ! pivot)
      then scan_up cmp xs pivot (Suc first) else first)"
  by pat_completeness auto
termination
  by (relation "measure (\<lambda>(cmp, xs, pivot, first). length xs - first)") auto

declare scan_up.simps [simp del]

function scan_down :: "(nat \<Rightarrow> nat \<Rightarrow> bool) \<Rightarrow> nat list \<Rightarrow> nat \<Rightarrow> nat \<Rightarrow> nat" where
  "scan_down cmp xs pivot lst =
     (if 0 < lst \<and> cmp (xs ! pivot) (xs ! lst)
      then scan_down cmp xs pivot (lst - 1) else lst)"
  by pat_completeness auto
termination
  by (relation "measure (\<lambda>(cmp, xs, pivot, lst). lst)") auto

declare scan_down.simps [simp del]

lemma scan_up_ge: "first \<le> scan_up cmp xs pivot first"
  by (induction cmp xs pivot first rule: scan_up.induct) (subst scan_up.simps, auto)

lemma scan_down_le: "scan_down cmp xs pivot lst \<le> lst"
  by (induction cmp xs pivot lst rule: scan_down.induct) (subst scan_down.simps, auto)

function unguarded_partition ::
  "(nat \<Rightarrow> nat \<Rightarrow> bool) \<Rightarrow> nat \<Rightarrow> nat \<Rightarrow> nat \<Rightarrow> nat list \<Rightarrow> nat \<times> nat list" where
  "unguarded_partition cmp pivot first lst xs =
     (let first' = scan_up cmp xs pivot first;
          lst' = scan_down cmp xs pivot (lst - 1)
      in if first' < lst'
         then unguarded_partition cmp pivot (Suc first') lst' (iter_swap first' lst' xs)
         else (first', xs))"
  by pat_completeness auto
termination
proof (relation "measure (\<lambda>(cmp, pivot, first, lst, xs). lst - first)", goal_cases)
  case 1
  show ?case by simp
next
  case (2 cmp pivot first lst xs first' lst')
  then have "first \<le> first'" "lst' \<le> lst - 1"
    using scan_up_ge [of first cmp xs pivot] scan_down_le [of cmp xs pivot "lst - 1"]
    by simp_all
  with 2 show ?case by simp
qed

declare unguarded_partition.simps [simp del]

definition unguarded_partition_pivot ::
  "(nat \<Rightarrow> nat \<Rightarrow> bool) \<Rightarrow> nat \<Rightarrow> nat \<Rightarrow> nat list \<Rightarrow> nat \<times> nat list" where
  "unguarded_partition_pivot cmp first lst xs =
     (let mid = first + (lst - first) div 2
      in unguarded_partition cmp first (first + 1) lst
           (move_median_to_first cmp first (first + 1) mid (lst - 1) xs))"

text \<open>\<open>__introsort_loop\<close> on the elements from \<open>first\<close> to before \<open>lst\<close>.\<close>

function introsort_loop ::
  "(nat \<Rightarrow> nat \<Rightarrow> bool) \<Rightarrow> nat \<Rightarrow> nat \<Rightarrow> nat \<Rightarrow> nat list \<Rightarrow> nat list" where
  "introsort_loop cmp first lst depth_limit xs =
     (if lst - first > 16 \<and> depth_limit \<noteq> 0
      then (let cut_xs = unguarded_partition_pivot cmp first lst xs;
                cut = fst cut_xs;
                xs' = introsort_loop cmp cut lst (depth_limit - 1) (snd cut_xs)
            in introsort_loop cmp first cut (depth_limit - 1) xs')
      else xs)"
  by pat_completeness auto
termination
  by (relation "measure (\<lambda>(cmp, first, lst, depth_limit, xs). depth_limit)") auto

declare introsort_loop.simps [simp del]

text \<open>\<open>std::__lg\<close>: the floor of the binary logarithm.\<close>

fun lg :: "nat \<Rightarrow> nat" where
  "lg n = (if n < 2 then 0 else Suc (lg (n div 2)))"

declare lg.simps [simp del]

definition gnu_sort :: sorter where
  "gnu_sort cmp xs =
     (if xs = [] then xs
      else final_insertion_sort cmp (introsort_loop cmp 0 (length xs) (lg (length xs) * 2) xs))"

section \<open>The sparse matrix class \<open>dgCMatrix\<close>\<close>

text \<open>
  The slots \<open>i\<close>, \<open>p\<close>, \<open>Dim\<close> and \<open>x\<close> of the R object. The integers of a well-formed
  matrix are not negative and are modelled by \<open>nat\<close>. \<open>InnerIterator\<close> for column \<open>col\<close>
  runs over the indices \<open>p[col] .. p[col + 1] - 1\<close> and yields \<open>(row(), value())\<close>.
\<close>

record dgCMatrix =
  sp_i :: "nat list"
  sp_p :: "nat list"
  sp_Dim :: "nat list"
  sp_x :: "real list"

definition sp_rows :: "dgCMatrix \<Rightarrow> nat" where
  "sp_rows A = sp_Dim A ! 0"

definition sp_cols :: "dgCMatrix \<Rightarrow> nat" where
  "sp_cols A = sp_Dim A ! 1"

definition InnerIterator :: "dgCMatrix \<Rightarrow> nat \<Rightarrow> (nat \<times> real) list" where
  "InnerIterator A col =
     map (\<lambda>index. (sp_i A ! index, sp_x A ! index)) [sp_p A ! col..<sp_p A ! (col + 1)]"

section \<open>Projecting linear factor models\<close>

text \<open>
  The left-hand side of the linear system: \<open>a = w * w.transpose()\<close>, then
  \<open>a(i, i) += 1e-15\<close> for every \<open>i < a.cols()\<close>.
\<close>

definition add_ridge :: "mat \<Rightarrow> mat" where
  "add_ridge a = fold (\<lambda>i a'. a'[i := (a' ! i)[i := a' ! i ! i + 1 / 10 ^ 15]]) [0..<ncols a] a"

definition gram_ridge :: "mat \<Rightarrow> mat" where
  "gram_ridge w = add_ridge (mult_transpose w w)"

text \<open>
  The right-hand side for column \<open>i\<close> of \<open>A\<close>. Sparse: \<open>b(j) += value * w(j, row)\<close> for every
  non-zero of the column and every \<open>j < k\<close>. Dense: \<open>b += A(it, i) * w.col(it)\<close> for every row
  \<open>it\<close> of \<open>A\<close>. Then \<open>L1\<close> is subtracted from every coefficient when it is not zero.
\<close>

definition sparse_rhs :: "dgCMatrix \<Rightarrow> mat \<Rightarrow> nat \<Rightarrow> nat \<Rightarrow> vec" where
  "sparse_rhs A w k i =
     fold (\<lambda>nz b. map (\<lambda>j. b ! j + snd nz * w ! j ! fst nz) [0..<k]) (InnerIterator A i)
       (replicate k 0)"

definition dense_rhs :: "mat \<Rightarrow> mat \<Rightarrow> nat \<Rightarrow> nat \<Rightarrow> vec" where
  "dense_rhs A w k i =
     fold (\<lambda>it b. map2 (+) b (map (\<lambda>v. A ! it ! i * v) (mcol w it))) [0..<nrows A]
       (replicate k 0)"

definition subtract_L1 :: "real \<Rightarrow> vec \<Rightarrow> vec" where
  "subtract_L1 L1 b = (if L1 = 0 then b else map (\<lambda>v. v - L1) b)"

text \<open>The matrix with \<open>k\<close> rows whose columns are the given vectors: \<open>h.col(i) = ...\<close>.\<close>

definition from_columns :: "nat \<Rightarrow> vec list \<Rightarrow> mat" where
  "from_columns k cs = map (\<lambda>j. map (\<lambda>c. c ! j) cs) [0..<k]"

text \<open>
  The columns are solved independently, so the parallel loop is a map over the column
  indices; \<open>threads\<close> has no effect on the result and is not an argument of the model.
\<close>

definition c_project_sparse ::
  "dgCMatrix \<Rightarrow> mat \<Rightarrow> bool \<Rightarrow> nat \<Rightarrow> nat \<Rightarrow> real \<Rightarrow> real \<Rightarrow> mat" where
  "c_project_sparse A w nonneg fast_maxit cd_maxit cd_tol L1 =
     (let a = gram_ridge w;
          a_llt = llt_solve a;
          k = nrows a
      in from_columns k
           (map (\<lambda>i. c_nnls a (subtract_L1 L1 (sparse_rhs A w k i)) a_llt
                        fast_maxit cd_maxit cd_tol nonneg)
              [0..<sp_cols A]))"

definition Rcpp_project_dense ::
  "mat \<Rightarrow> mat \<Rightarrow> bool \<Rightarrow> nat \<Rightarrow> nat \<Rightarrow> real \<Rightarrow> real \<Rightarrow> mat" where
  "Rcpp_project_dense A w nonneg fast_maxit cd_maxit cd_tol L1 =
     (let a = gram_ridge w;
          a_llt = llt_solve a;
          k = nrows a
      in from_columns k
           (map (\<lambda>i. c_nnls a (subtract_L1 L1 (dense_rhs A w k i)) a_llt
                        fast_maxit cd_maxit cd_tol nonneg)
              [0..<ncols A]))"

section \<open>Matrix factorization by alternating least squares\<close>

text \<open>
  The variables the loop of a driver updates: \<open>w\<close>, \<open>h\<close>, \<open>d\<close> and \<open>tol_\<close>. The result list of
  a driver has the fields \<open>w\<close>, \<open>d\<close>, \<open>h\<close>, \<open>tol\<close> and \<open>iter\<close>.
\<close>

record als_state =
  st_w :: mat
  st_h :: mat
  st_d :: vec
  st_tol :: real

record nmf_result =
  res_w :: mat
  res_d :: vec
  res_h :: mat
  res_tol :: real
  res_iter :: nat

text \<open>
  Reset the diagonal and scale: for every \<open>i < k\<close>, when \<open>diag\<close>,
  \<open>d[i] = h.row(i).sum() + 1e-15\<close> and then \<open>h(i, j) /= d(i)\<close> for every \<open>j < nc\<close>.
\<close>

definition rescale_row :: "nat \<Rightarrow> nat \<Rightarrow> mat \<times> vec \<Rightarrow> mat \<times> vec" where
  "rescale_row nc i f_d =
     (case f_d of (h, d) \<Rightarrow>
       (let di = sum_list (h ! i) + 1 / 10 ^ 15
        in (h[i := map (\<lambda>v. v / di) (take nc (h ! i)) @ drop nc (h ! i)], d[i := di])))"

definition rescale :: "bool \<Rightarrow> nat \<Rightarrow> nat \<Rightarrow> mat \<times> vec \<Rightarrow> mat \<times> vec" where
  "rescale diag k nc f_d = (if diag then fold (rescale_row nc) [0..<k] f_d else f_d)"

text \<open>
  The loop of every driver: \<open>for (it = 0; it < maxit; ++it) { body; if (tol_ < tol) break; }\<close>.
  The result is the state at the exit together with the value of \<open>it\<close> there.
\<close>

function als_loop ::
  "(als_state \<Rightarrow> als_state) \<Rightarrow> real \<Rightarrow> nat \<Rightarrow> nat \<Rightarrow> als_state \<Rightarrow> als_state \<times> nat" where
  "als_loop body tol maxit it s =
     (if it < maxit
      then (let s' = body s
            in if st_tol s' < tol then (s', it) else als_loop body tol maxit (Suc it) s')
      else (s, it))"
  by pat_completeness auto
termination
  by (relation "measure (\<lambda>(body, tol, maxit, it, s). maxit - it)") auto

declare als_loop.simps [simp del]

text \<open>
  Two notions to speak about a run of the loop from the state \<open>s0\<close>: the \<open>t\<close>-th complete
  pass of the body is the first after which \<open>tol_ < tol\<close> holds, and no pass among the first
  \<open>maxit\<close> ends with \<open>tol_ < tol\<close>.
\<close>

definition converges_at :: "(als_state \<Rightarrow> als_state) \<Rightarrow> als_state \<Rightarrow> real \<Rightarrow> nat \<Rightarrow> bool" where
  "converges_at body s0 tol t =
     (1 \<le> t \<and> st_tol ((body ^^ t) s0) < tol \<and>
      (\<forall>j\<in>{1..<t}. \<not> st_tol ((body ^^ j) s0) < tol))"

definition never_converges :: "(als_state \<Rightarrow> als_state) \<Rightarrow> als_state \<Rightarrow> real \<Rightarrow> nat \<Rightarrow> bool" where
  "never_converges body s0 tol maxit = (\<forall>j\<in>{1..maxit}. \<not> st_tol ((body ^^ j) s0) < tol)"

text \<open>One pass of the loop body of \<open>Rcpp_nmf_sparse\<close> and of \<open>Rcpp_nmf_dense\<close>.\<close>

definition nmf_sparse_iteration ::
  "dgCMatrix \<Rightarrow> dgCMatrix \<Rightarrow> bool \<Rightarrow> nat \<Rightarrow> bool \<Rightarrow> real \<Rightarrow> real \<Rightarrow> bool \<Rightarrow> nat \<Rightarrow> nat \<Rightarrow> real \<Rightarrow>
   als_state \<Rightarrow> als_state" where
  "nmf_sparse_iteration A At symmetric k nonneg L1_w L1_h diag fast_maxit cd_maxit cd_tol s =
     (let h = c_project_sparse A (st_w s) nonneg fast_maxit cd_maxit cd_tol L1_h;
          h_d = rescale diag k (sp_cols A) (h, st_d s);
          w_it = st_w s;
          w = (if symmetric
               then c_project_sparse A (fst h_d) nonneg fast_maxit cd_maxit cd_tol L1_w
               else c_project_sparse At (fst h_d) nonneg fast_maxit cd_maxit cd_tol L1_w);
          w_d = rescale diag k (sp_rows A) (w, snd h_d)
      in \<lparr>st_w = fst w_d, st_h = fst h_d, st_d = snd w_d, st_tol = cor (fst w_d) w_it\<rparr>)"

definition nmf_dense_iteration ::
  "mat \<Rightarrow> mat \<Rightarrow> bool \<Rightarrow> nat \<Rightarrow> bool \<Rightarrow> real \<Rightarrow> real \<Rightarrow> bool \<Rightarrow> nat \<Rightarrow> nat \<Rightarrow> real \<Rightarrow>
   als_state \<Rightarrow> als_state" where
  "nmf_dense_iteration A At symmetric k nonneg L1_w L1_h diag fast_maxit cd_maxit cd_tol s =
     (let h = Rcpp_project_dense A (st_w s) nonneg fast_maxit cd_maxit cd_tol L1_h;
          h_d = rescale diag k (ncols A) (h, st_d s);
          w_it = st_w s;
          w = (if symmetric
               then Rcpp_project_dense A (fst h_d) nonneg fast_maxit cd_maxit cd_tol L1_w
               else Rcpp_project_dense At (fst h_d) nonneg fast_maxit cd_maxit cd_tol L1_w);
          w_d = rescale diag k (nrows A) (w, snd h_d)
      in \<lparr>st_w = fst w_d, st_h = fst h_d, st_d = snd w_d, st_tol = cor (fst w_d) w_it\<rparr>)"

text \<open>
  Before the loop: \<open>h\<close> is a \<open>k\<close> by \<open>A.cols()\<close> matrix, zero since the file defines
  \<open>EIGEN_INITIALIZE_MATRICES_BY_ZERO\<close>, \<open>d\<close> is all ones and \<open>tol_ = 1\<close>.
\<close>

definition nmf_init :: "mat \<Rightarrow> nat \<Rightarrow> nat \<Rightarrow> als_state" where
  "nmf_init w k n =
     \<lparr>st_w = w, st_h = replicate k (replicate n 0), st_d = replicate k 1, st_tol = 1\<rparr>"

text \<open>After the loop: reorder the factors by the diagonal when \<open>diag\<close>, and return.\<close>

definition nmf_finish :: "sorter \<Rightarrow> bool \<Rightarrow> als_state \<times> nat \<Rightarrow> nmf_result" where
  "nmf_finish std_sort diag sit =
     (case sit of (s, it) \<Rightarrow>
       (if diag
        then (let indx = sort_index std_sort (st_d s)
              in \<lparr>res_w = transpose_mat (reorder_rows (st_w s) indx),
                  res_d = reorder (st_d s) indx,
                  res_h = reorder_rows (st_h s) indx,
                  res_tol = st_tol s, res_iter = it\<rparr>)
        else \<lparr>res_w = transpose_mat (st_w s), res_d = st_d s, res_h = st_h s,
              res_tol = st_tol s, res_iter = it\<rparr>))"

text \<open>
  The drivers. \<open>verbose\<close> only prints and \<open>threads\<close> only schedules; neither is an argument
  of the model. The first argument is the sort of the standard library. The dense driver
  computes \<open>At\<close> itself when \<open>symmetric\<close> is false; when it is true \<open>At\<close> stays empty and is
  not read.
\<close>

definition Rcpp_nmf_sparse ::
  "sorter \<Rightarrow> dgCMatrix \<Rightarrow> dgCMatrix \<Rightarrow> bool \<Rightarrow> mat \<Rightarrow> real \<Rightarrow> bool \<Rightarrow> real \<Rightarrow> real \<Rightarrow> nat \<Rightarrow> bool \<Rightarrow>
   nat \<Rightarrow> nat \<Rightarrow> real \<Rightarrow> nmf_result" where
  "Rcpp_nmf_sparse std_sort A At symmetric w tol nonneg L1_w L1_h maxit diag fast_maxit cd_maxit
       cd_tol =
     (let k = nrows w
      in nmf_finish std_sort diag
           (als_loop
              (nmf_sparse_iteration A At symmetric k nonneg L1_w L1_h diag fast_maxit cd_maxit cd_tol)
              tol maxit 0 (nmf_init w k (sp_cols A))))"

definition Rcpp_nmf_dense ::
  "sorter \<Rightarrow> mat \<Rightarrow> bool \<Rightarrow> mat \<Rightarrow> real \<Rightarrow> bool \<Rightarrow> real \<Rightarrow> real \<Rightarrow> nat \<Rightarrow> bool \<Rightarrow>
   nat \<Rightarrow> nat \<Rightarrow> real \<Rightarrow> nmf_result" where
  "Rcpp_nmf_dense std_sort A symmetric w tol nonneg L1_w L1_h maxit diag fast_maxit cd_maxit
       cd_tol =
     (let k = nrows w;
          At = (if symmetric then [] else transpose_mat A)
      in nmf_finish std_sort diag
           (als_loop
              (nmf_dense_iteration A At symmetric k nonneg L1_w L1_h diag fast_maxit cd_maxit cd_tol)
              tol maxit 0 (nmf_init w k (ncols A))))"

text \<open>
  What a call with \<open>maxit = 0\<close> returns in the words of the specification, for the initial
  \<open>w\<close> and a matrix \<open>A\<close> with \<open>n\<close> columns: \<open>w\<close> transposed, \<open>d\<close> all ones of length \<open>k\<close>, \<open>h\<close> the
  \<open>k\<close> by \<open>n\<close> zero matrix, \<open>tol = 1\<close> and \<open>iter = 0\<close>. The properties below compare the
  drivers with it.
\<close>

definition spec_maxit_zero :: "mat \<Rightarrow> nat \<Rightarrow> nmf_result" where
  "spec_maxit_zero w n =
     \<lparr>res_w = transpose_mat w, res_d = replicate (nrows w) 1,
      res_h = replicate (nrows w) (replicate n 0), res_tol = 1, res_iter = 0\<rparr>"

section \<open>Rank-2 factorization\<close>

text \<open>
  The least squares solve for one right-hand side \<open>(b0, b1)\<close>. The source writes this block
  out four times, in the update of \<open>w\<close> and of \<open>h\<close> of \<open>Rcpp_nmf2_sparse\<close> and of
  \<open>Rcpp_nmf2_dense\<close>, with the same text up to the names of the right-hand side.
\<close>

definition nnls2 :: "mat \<Rightarrow> real \<Rightarrow> bool \<Rightarrow> real \<Rightarrow> real \<Rightarrow> real \<times> real" where
  "nnls2 a denom nonneg b0 b1 =
     (if nonneg
      then (let a01b1 = a ! 0 ! 1 * b1; a11b0 = a ! 1 ! 1 * b0
            in if a11b0 < a01b1 then (0, b1 / a ! 1 ! 1)
               else (let a01b0 = a ! 0 ! 1 * b0; a00b1 = a ! 0 ! 0 * b1
                     in if a00b1 < a01b0 then (b0 / a ! 0 ! 0, 0)
                        else ((a11b0 - a01b1) / denom, (a00b1 - a01b0) / denom)))
      else ((a ! 1 ! 1 * b0 - a ! 0 ! 1 * b1) / denom,
            (a ! 0 ! 0 * b1 - a ! 0 ! 1 * b0) / denom))"

text \<open>\<open>denom = a(0, 0) * a(1, 1) - a(0, 1) * a(0, 1)\<close>.\<close>

definition denom2 :: "mat \<Rightarrow> real" where
  "denom2 a = a ! 0 ! 0 * a ! 1 ! 1 - a ! 0 ! 1 * a ! 0 ! 1"

text \<open>The two writes \<open>M(0, i) = x0; M(1, i) = x1\<close>.\<close>

definition set_col2 :: "nat \<Rightarrow> real \<times> real \<Rightarrow> mat \<Rightarrow> mat" where
  "set_col2 i x M = (M[0 := (M ! 0)[i := fst x]])[1 := (M ! 1)[i := snd x]]"

text \<open>
  The loop \<open>for (i = 0; i < n; ++i)\<close> that solves for column \<open>i\<close> with the right-hand side
  \<open>rhs i\<close> and writes the solution into column \<open>i\<close> of \<open>M\<close>.
\<close>

definition solve_columns2 ::
  "mat \<Rightarrow> real \<Rightarrow> bool \<Rightarrow> (nat \<Rightarrow> real \<times> real) \<Rightarrow> nat \<Rightarrow> mat \<Rightarrow> mat" where
  "solve_columns2 a denom nonneg rhs n M =
     fold (\<lambda>i M'. set_col2 i (nnls2 a denom nonneg (fst (rhs i)) (snd (rhs i))) M') [0..<n] M"

text \<open>
  The right-hand sides of the update of \<open>w\<close>: \<open>wb\<close> is set to zero, then
  \<open>wb(0, r) += v * h(0, i)\<close> and \<open>wb(1, r) += v * h(1, i)\<close> for every column \<open>i\<close> of \<open>A\<close> and
  every coefficient \<open>v = A(r, i)\<close> of the column (every non-zero for a sparse \<open>A\<close>).
\<close>

definition wb_add :: "mat \<Rightarrow> nat \<Rightarrow> nat \<Rightarrow> real \<Rightarrow> mat \<Rightarrow> mat" where
  "wb_add h i r v wb =
     (wb[0 := (wb ! 0)[r := wb ! 0 ! r + v * h ! 0 ! i]])[1 := (wb ! 1)[r := wb ! 1 ! r + v * h ! 1 ! i]]"

definition wb_sparse :: "dgCMatrix \<Rightarrow> mat \<Rightarrow> mat" where
  "wb_sparse A h =
     fold (\<lambda>i wb. fold (\<lambda>nz wb'. wb_add h i (fst nz) (snd nz) wb') (InnerIterator A i) wb)
       [0..<sp_cols A] (replicate 2 (replicate (sp_rows A) 0))"

definition wb_dense :: "mat \<Rightarrow> mat \<Rightarrow> mat" where
  "wb_dense A h =
     fold (\<lambda>i wb. fold (\<lambda>it wb'. wb_add h i it (A ! it ! i) wb') [0..<nrows A] wb)
       [0..<ncols A] (replicate 2 (replicate (nrows A) 0))"

text \<open>
  The right-hand side of the update of \<open>h\<close> for column \<open>i\<close>: \<open>b0 += v * w(0, r)\<close> and
  \<open>b1 += v * w(1, r)\<close> over the coefficients \<open>v = A(r, i)\<close> of the column.
\<close>

definition rhs2_sparse :: "dgCMatrix \<Rightarrow> mat \<Rightarrow> nat \<Rightarrow> real \<times> real" where
  "rhs2_sparse A w i =
     fold (\<lambda>nz b. (fst b + snd nz * w ! 0 ! fst nz, snd b + snd nz * w ! 1 ! fst nz))
       (InnerIterator A i) (0, 0)"

definition rhs2_dense :: "mat \<Rightarrow> mat \<Rightarrow> nat \<Rightarrow> real \<times> real" where
  "rhs2_dense A w i =
     fold (\<lambda>it b. (fst b + A ! it ! i * w ! 0 ! it, snd b + A ! it ! i * w ! 1 ! it))
       [0..<nrows A] (0, 0)"

text \<open>The updates of \<open>w\<close> and of \<open>h\<close>, before the diagonal is reset.\<close>

definition nmf2_sparse_update_w :: "dgCMatrix \<Rightarrow> bool \<Rightarrow> mat \<Rightarrow> mat \<Rightarrow> mat" where
  "nmf2_sparse_update_w A nonneg h w =
     (let a = mult_transpose h h; denom = denom2 a; wb = wb_sparse A h
      in solve_columns2 a denom nonneg (\<lambda>i. (wb ! 0 ! i, wb ! 1 ! i)) (sp_rows A) w)"

definition nmf2_sparse_update_h :: "dgCMatrix \<Rightarrow> bool \<Rightarrow> mat \<Rightarrow> mat \<Rightarrow> mat" where
  "nmf2_sparse_update_h A nonneg w h =
     (let a = mult_transpose w w; denom = denom2 a
      in solve_columns2 a denom nonneg (rhs2_sparse A w) (sp_cols A) h)"

definition nmf2_dense_update_w :: "mat \<Rightarrow> bool \<Rightarrow> mat \<Rightarrow> mat \<Rightarrow> mat" where
  "nmf2_dense_update_w A nonneg h w =
     (let a = mult_transpose h h; denom = denom2 a; wb = wb_dense A h
      in solve_columns2 a denom nonneg (\<lambda>i. (wb ! 0 ! i, wb ! 1 ! i)) (nrows A) w)"

definition nmf2_dense_update_h :: "mat \<Rightarrow> bool \<Rightarrow> mat \<Rightarrow> mat \<Rightarrow> mat" where
  "nmf2_dense_update_h A nonneg w h =
     (let a = mult_transpose w w; denom = denom2 a
      in solve_columns2 a denom nonneg (rhs2_dense A w) (ncols A) h)"

text \<open>One pass of the loop body of \<open>Rcpp_nmf2_sparse\<close> and of \<open>Rcpp_nmf2_dense\<close>.\<close>

definition nmf2_sparse_iteration :: "dgCMatrix \<Rightarrow> bool \<Rightarrow> bool \<Rightarrow> als_state \<Rightarrow> als_state" where
  "nmf2_sparse_iteration A nonneg diag s =
     (let w = nmf2_sparse_update_w A nonneg (st_h s) (st_w s);
          w_d = rescale diag 2 (sp_rows A) (w, st_d s);
          h_it = st_h s;
          h = nmf2_sparse_update_h A nonneg (fst w_d) (st_h s);
          h_d = rescale diag 2 (sp_cols A) (h, snd w_d)
      in \<lparr>st_w = fst w_d, st_h = fst h_d, st_d = snd h_d, st_tol = cor (fst h_d) h_it\<rparr>)"

definition nmf2_dense_iteration :: "mat \<Rightarrow> bool \<Rightarrow> bool \<Rightarrow> als_state \<Rightarrow> als_state" where
  "nmf2_dense_iteration A nonneg diag s =
     (let w = nmf2_dense_update_w A nonneg (st_h s) (st_w s);
          w_d = rescale diag 2 (nrows A) (w, st_d s);
          h_it = st_h s;
          h = nmf2_dense_update_h A nonneg (fst w_d) (st_h s);
          h_d = rescale diag 2 (ncols A) (h, snd w_d)
      in \<lparr>st_w = fst w_d, st_h = fst h_d, st_d = snd h_d, st_tol = cor (fst h_d) h_it\<rparr>)"

text \<open>Before the loop: \<open>w\<close> is a 2 by \<open>A.rows()\<close> zero matrix, \<open>d\<close> is \<open>(1, 1)\<close> and \<open>tol_ = 1\<close>.\<close>

definition nmf2_init :: "mat \<Rightarrow> nat \<Rightarrow> als_state" where
  "nmf2_init h m = \<lparr>st_w = replicate 2 (replicate m 0), st_h = h, st_d = [1, 1], st_tol = 1\<rparr>"

text \<open>
  \<open>M.col(0).swap(M.row(0))\<close> on a matrix with two rows. Eigen swaps coefficient \<open>j\<close> of
  \<open>col(0)\<close>, which is \<open>M(j, 0)\<close>, with coefficient \<open>j\<close> of \<open>row(0)\<close>, which is \<open>M(0, j)\<close>, for
  every \<open>j\<close> below the size of \<open>col(0)\<close>, here 2. For \<open>j = 0\<close> both are \<open>M(0, 0)\<close>; for \<open>j = 1\<close>
  the swap exchanges \<open>M(1, 0)\<close> and \<open>M(0, 1)\<close>. The file defines \<open>EIGEN_NO_DEBUG\<close>, so no
  size is checked; on a matrix with fewer than two columns \<open>M(0, 1)\<close> lies outside \<open>M\<close> and
  the behaviour is undefined.
\<close>

definition swap_col0_row0 :: "mat \<Rightarrow> mat" where
  "swap_col0_row0 M =
     (let c = M ! 1 ! 0; r = M ! 0 ! 1
      in (M[1 := (M ! 1)[0 := r]])[0 := (M ! 0)[1 := c]])"

text \<open>
  After the loop, "sort factors by diagonal value":
  \<open>if (diag && d(0) < d(1)) { w.col(0).swap(w.row(0)); h.col(0).swap(h.row(0)); swap d }\<close>.
\<close>

definition nmf2_finish :: "bool \<Rightarrow> als_state \<times> nat \<Rightarrow> nmf_result" where
  "nmf2_finish diag sit =
     (case sit of (s, it) \<Rightarrow>
       (if diag \<and> st_d s ! 0 < st_d s ! 1
        then \<lparr>res_w = transpose_mat (swap_col0_row0 (st_w s)),
              res_d = ((st_d s)[1 := st_d s ! 0])[0 := st_d s ! 1],
              res_h = swap_col0_row0 (st_h s),
              res_tol = st_tol s, res_iter = it\<rparr>
        else \<lparr>res_w = transpose_mat (st_w s), res_d = st_d s, res_h = st_h s,
              res_tol = st_tol s, res_iter = it\<rparr>))"

definition Rcpp_nmf2_sparse :: "dgCMatrix \<Rightarrow> mat \<Rightarrow> real \<Rightarrow> bool \<Rightarrow> nat \<Rightarrow> bool \<Rightarrow> nmf_result" where
  "Rcpp_nmf2_sparse A h tol nonneg maxit diag =
     nmf2_finish diag
       (als_loop (nmf2_sparse_iteration A nonneg diag) tol maxit 0 (nmf2_init h (sp_rows A)))"

definition Rcpp_nmf2_dense :: "mat \<Rightarrow> mat \<Rightarrow> real \<Rightarrow> bool \<Rightarrow> nat \<Rightarrow> bool \<Rightarrow> nmf_result" where
  "Rcpp_nmf2_dense A h tol nonneg maxit diag =
     nmf2_finish diag
       (als_loop (nmf2_dense_iteration A nonneg diag) tol maxit 0 (nmf2_init h (nrows A)))"

text \<open>
  The case analysis on the optimality conditions of the two-variable problem, in the
  words of the specification: for the matrix with coefficients \<open>a00\<close>, \<open>a01\<close>, \<open>a11\<close> and the
  right-hand side \<open>(b0, b1)\<close>. The properties below compare the updates of the drivers with
  it.
\<close>

definition spec_kkt_cases :: "real \<Rightarrow> real \<Rightarrow> real \<Rightarrow> real \<Rightarrow> real \<Rightarrow> real \<times> real" where
  "spec_kkt_cases a00 a01 a11 b0 b1 =
     (let denom = a00 * a11 - a01\<^sup>2
      in if a11 * b0 < a01 * b1 then (0, b1 / a11)
         else if a00 * b1 < a01 * b0 then (b0 / a00, 0)
         else ((a11 * b0 - a01 * b1) / denom, (a00 * b1 - a01 * b0) / denom))"

section \<open>Properties of coordinate descent\<close>

text \<open>
  Claim C7. With \<open>cd_maxit = 0\<close> the coordinate descent routine returns its starting
  vector unchanged, for every matrix, right-hand side, starting vector, tolerance and
  both values of \<open>nonneg\<close>.
\<close>

theorem cdnnls_zero_sweeps_identity: "c_cdnnls a b x 0 cd_tol nonneg = x"
  by (simp add: c_cdnnls_def c_cdnnls_sweeps_def cd_loop.simps)

lemma cd_update_fixed:
  "cd_proposal a nonneg x b0 i = x ! i \<Longrightarrow> cd_update a nonneg i (x, b0, t) = (x, b0, t)"
  by (simp add: cd_update_def)

lemma cd_fold_fixed:
  "\<forall>i\<in>set js. cd_proposal a nonneg x b0 i = x ! i \<Longrightarrow>
   fold (cd_update a nonneg) js (x, b0, t) = (x, b0, t)"
  by (induction js) (simp_all add: cd_update_fixed)

lemma cd_sweep_fixed:
  "\<forall>i<length x. cd_proposal a nonneg x b0 i = x ! i \<Longrightarrow> cd_sweep a nonneg x b0 = (x, b0, 0)"
  unfolding cd_sweep_def by (rule cd_fold_fixed) simp

text \<open>
  Claim C10. Let \<open>cd_tol \<ge> 0\<close> and let \<open>x\<close> with gradient \<open>g\<close> be a fixed point of the clamped
  coordinate update: for every \<open>i\<close> the proposal \<open>x(i) - g(i) / a(i, i)\<close>, clamped when
  \<open>nonneg\<close>, equals \<open>x(i)\<close>, where \<open>a(i, i)\<close> is not zero. Then a sweep from \<open>(x, g)\<close>
  changes nothing and leaves the sweep statistic at 0, the loop stops right after such a
  sweep, and \<open>c_cdnnls\<close> started at such an \<open>x\<close> returns it after one sweep (none when
  \<open>cd_maxit = 0\<close>), however large \<open>cd_maxit\<close> is.
\<close>

theorem cdnnls_fixed_point:
  assumes tol: "0 \<le> cd_tol"
    and fixed: "\<forall>i<length x. a ! i ! i \<noteq> 0 \<and> cd_proposal a nonneg x g i = x ! i"
  shows "cd_sweep a nonneg x g = (x, g, 0) \<and>
         cd_loop a nonneg cd_maxit cd_tol it (cd_sweep a nonneg x g) = (x, it) \<and>
         (g = cd_gradient a b x \<longrightarrow>
            c_cdnnls a b x cd_maxit cd_tol nonneg = x \<and>
            snd (c_cdnnls_sweeps a b x cd_maxit cd_tol nonneg) = min 1 cd_maxit)"
proof -
  have sweep: "cd_sweep a nonneg x g = (x, g, 0)"
    using fixed by (intro cd_sweep_fixed) simp
  have stop: "cd_loop a nonneg cd_maxit cd_tol j (x, g, 0) = (x, j)" for j
    using tol by (simp add: cd_loop.simps)
  have run: "cd_loop a nonneg cd_maxit cd_tol 0 (x, g, 1 + cd_tol) = (x, min 1 cd_maxit)"
  proof (cases "0 < cd_maxit")
    case True
    then have "cd_loop a nonneg cd_maxit cd_tol 0 (x, g, 1 + cd_tol)
               = cd_loop a nonneg cd_maxit cd_tol (Suc 0) (cd_sweep a nonneg x g)"
      by (subst cd_loop.simps) simp
    with sweep stop True show ?thesis by simp
  next
    case False
    then show ?thesis by (simp add: cd_loop.simps)
  qed
  show ?thesis
    using sweep stop run by (auto simp add: c_cdnnls_def c_cdnnls_sweeps_def)
qed

lemma upt_0_2: "[0..<2] = [0, 1]"
  by (simp add: upt_rec)

theorem cdnnls_fixed_point_witness:
  "c_cdnnls [[2, 1], [1, 2]] [1, -1] [1/2, 0] 100 (1 / 10 ^ 8) True = [1/2, 0] \<and>
   snd (c_cdnnls_sweeps [[2, 1], [1, 2]] [1, -1] [1/2, 0] 100 (1 / 10 ^ 8) True) = 1"
proof -
  have g: "cd_gradient [[2, 1], [1, 2]] [1, -1] [1/2, 0] = [0, 3/2]"
    by (simp add: cd_gradient_def mat_vec_def dot_def upt_0_2)
  have fixed: "\<forall>i<length [1/2, 0::real]. [[2, 1], [1, 2 :: real]] ! i ! i \<noteq> 0 \<and>
      cd_proposal [[2, 1], [1, 2]] True [1/2, 0] [0, 3/2] i = [1/2, 0] ! i"
    by (simp add: cd_proposal_def less_Suc_eq)
  have tol: "(0::real) \<le> 1 / 10 ^ 8" by simp
  show ?thesis
    using cdnnls_fixed_point [OF tol fixed, of 100 0 "[1, -1]"] g by simp
qed

section \<open>The Cholesky solve on small matrices\<close>

text \<open>
  On a positive definite matrix of size 1 or 2 the model of \<open>LLT::solve\<close> returns the
  solution of the linear system, as Cramer's rule gives it.
\<close>

lemma llt_solve_1:
  "0 < c \<Longrightarrow> llt_solve [[c]] [b] = [b / c]"
  by (simp add: llt_solve_def cholesky_def chol_row_def forward_subst_def backward_subst_def
      dot_def flip: real_sqrt_mult)

lemma llt_solve_2:
  assumes "0 < p" "0 < p * r - q * q"
  shows "llt_solve [[p, q], [q, r]] [u, v] =
         [(r * u - q * v) / (p * r - q * q), (p * v - q * u) / (p * r - q * q)]"
proof -
  define s where "s = sqrt p"
  define t where "t = sqrt (r - q / s * (q / s))"
  have s: "0 < s" "s * s = p" using assms by (simp_all add: s_def)
  have schur: "r - q / s * (q / s) = (p * r - q * q) / p"
    using s assms by (simp add: field_simps)
  then have "0 < r - q / s * (q / s)" using assms by simp
  then have t: "0 < t" "t * t = r - q / s * (q / s)" by (simp_all add: t_def)
  have L: "cholesky [[p, q], [q, r]] = [[s], [q / s, t]]"
    by (simp add: cholesky_def chol_row_def dot_def s_def t_def)
  have "llt_solve [[p, q], [q, r]] [u, v] =
        [(u / s - q / s * ((v - q / s * (u / s)) / t / t)) / s, (v - q / s * (u / s)) / t / t]"
    by (simp add: llt_solve_def L forward_subst_def backward_subst_def dot_def upt_0_2 upt_rec)
  also have "(v - q / s * (u / s)) / t / t = (p * v - q * u) / (p * r - q * q)"
  proof -
    have "(v - q / s * (u / s)) / t / t = (v - q * u / (s * s)) / (t * t)" by simp
    also have "\<dots> = (v - q * u / p) / ((p * r - q * q) / p)"
      using s t schur by simp
    also have "\<dots> = (p * v - q * u) / (p * r - q * q)"
      using assms by (simp add: field_simps)
    finally show ?thesis .
  qed
  also have "(u / s - q / s * ((p * v - q * u) / (p * r - q * q))) / s
             = (r * u - q * v) / (p * r - q * q)"
  proof -
    have "(u / s - q / s * X) / s = (u - q * X) / (s * s)" for X
      using s(1) by (simp add: field_simps)
    then have "(u / s - q / s * ((p * v - q * u) / (p * r - q * q))) / s
          = (u - q * ((p * v - q * u) / (p * r - q * q))) / (s * s)" .
    also have "\<dots> = (u - q * ((p * v - q * u) / (p * r - q * q))) / p" using s by simp
    also have "\<dots> = (r * u - q * v) / (p * r - q * q)"
      using assms by (simp add: field_simps)
    finally show ?thesis .
  qed
  finally show ?thesis .
qed

section \<open>Properties of \<open>c_nnls\<close>\<close>

lemma fast_loop_not_nonneg: "fast_loop a b False fast_maxit it x = x"
  by (simp add: fast_loop.simps)

text \<open>
  Claim C5. With \<open>nonneg = false\<close> and \<open>cd_maxit = 0\<close>, \<open>c_nnls\<close> returns exactly what the
  \<open>solve\<close> of the decomposition it was given returns for \<open>b\<close>: the active set loop is
  skipped and coordinate descent runs no sweep. This holds for every \<open>a\<close>, \<open>b\<close>,
  \<open>fast_maxit\<close> and \<open>cd_tol\<close>, in particular for \<open>a_llt = llt_solve a\<close>.
\<close>

theorem nnls_pure_least_squares:
  "c_nnls a b a_llt fast_maxit 0 cd_tol False = a_llt b"
  by (simp add: c_nnls_def fast_loop_not_nonneg c_cdnnls_def c_cdnnls_sweeps_def cd_loop.simps)

theorem nnls_pure_least_squares_witness:
  "c_nnls [[2, 1], [1, 2]] [1, 1] (llt_solve [[2, 1], [1, 2]]) 10 0 (1 / 10 ^ 8) False = [1/3, 1/3]"
  using nnls_pure_least_squares [of "[[2, 1], [1, 2]]" "[1, 1]" "llt_solve [[2, 1], [1, 2]]" 10 "1 / 10 ^ 8"]
  by (simp add: llt_solve_2)













lemma scatter_length:
  "length (fold (\<lambda>i x'. x'[g ! i := s ! i]) js z) = length z"
  by (induction js arbitrary: z) simp_all


lemma fast_round_length: "length (fast_round a b x) = length x"
  by (simp add: fast_round_def Let_def scatter_length)




lemma funpow_fast_round_length: "length ((fast_round a b ^^ n) x) = length x"
  by (induction n) (simp_all add: fast_round_length)









section \<open>Properties of the projection\<close>

lemma ridge_fold:
  "n \<le> length a \<Longrightarrow>
   fold (\<lambda>i a'. a'[i := (a' ! i)[i := a' ! i ! i + e]]) [0..<n] a
   = map (\<lambda>i. (a ! i)[i := a ! i ! i + e]) [0..<n] @ drop n a"
proof (induction n)
  case 0
  then show ?case by simp
next
  case (Suc n)
  let ?pre = "map (\<lambda>i. (a ! i)[i := a ! i ! i + e]) [0..<n]"
  have nth: "(?pre @ drop n a) ! n = a ! n"
    using Suc.prems by (simp add: nth_append)
  have "fold (\<lambda>i a'. a'[i := (a' ! i)[i := a' ! i ! i + e]]) [0..<Suc n] a
        = (?pre @ drop n a)[n := (a ! n)[n := a ! n ! n + e]]"
    using Suc nth by simp
  also have "\<dots> = ?pre @ (drop n a)[0 := (a ! n)[n := a ! n ! n + e]]"
    by (simp add: list_update_append)
  also have "(drop n a)[0 := (a ! n)[n := a ! n ! n + e]]
             = (a ! n)[n := a ! n ! n + e] # drop (Suc n) a"
    using Suc.prems by (simp add: Cons_nth_drop_Suc [symmetric])
  finally show ?case by simp
qed

lemma ncols_mult_transpose: "ncols (mult_transpose w w) = length w"
  by (cases w) (simp_all add: ncols_def mult_transpose_def)

lemma gram_ridge_eq:
  "gram_ridge w =
     map (\<lambda>i. (map (\<lambda>s. dot (w ! i) s) w)[i := dot (w ! i) (w ! i) + 1 / 10 ^ 15]) [0..<length w]"
proof -
  have len: "length (mult_transpose w w) = length w" by (simp add: mult_transpose_def)
  have "gram_ridge w = map (\<lambda>i. (mult_transpose w w ! i)[i := mult_transpose w w ! i ! i + 1 / 10 ^ 15])
                         [0..<length w]"
    using ridge_fold [of "length w" "mult_transpose w w" "1 / 10 ^ 15"] len
    by (simp add: gram_ridge_def add_ridge_def ncols_mult_transpose)
  also have "\<dots> = map (\<lambda>i. (map (\<lambda>s. dot (w ! i) s) w)[i := dot (w ! i) (w ! i) + 1 / 10 ^ 15])
                     [0..<length w]"
    by (rule map_cong) (simp_all add: mult_transpose_def)
  finally show ?thesis .
qed

lemma gram_ridge_nth:
  "i < length w \<Longrightarrow> j < length w \<Longrightarrow>
   gram_ridge w ! i ! j = dot (w ! i) (w ! j) + (if i = j then 1 / 10 ^ 15 else 0)"
  by (simp add: gram_ridge_eq nth_list_update)

lemma gram_ridge_dims:
  "nrows (gram_ridge w) = nrows w \<and> (\<forall>i<nrows w. length (gram_ridge w ! i) = nrows w)"
  by (simp add: gram_ridge_eq nrows_def)

text \<open>
  Claim C8. Both projections build \<open>a = w * w.transpose()\<close> and add \<open>1e-15\<close> to each of its
  \<open>k\<close> diagonal coefficients and to nothing else: \<open>a\<close> is \<open>k\<close> by \<open>k\<close> with
  \<open>a(i, j) = w.row(i) . w.row(j)\<close>, plus \<open>1e-15\<close> when \<open>i = j\<close>. Every column of the result is
  the \<open>c_nnls\<close> solution for that one matrix and the \<open>solve\<close> of its one decomposition.
\<close>

theorem projection_gram_ridge:
  "nrows (gram_ridge w) = nrows w \<and>
   (\<forall>i<nrows w. length (gram_ridge w ! i) = nrows w \<and>
      (\<forall>j<nrows w. gram_ridge w ! i ! j
                    = dot (w ! i) (w ! j) + (if i = j then 1 / 10 ^ 15 else 0))) \<and>
   c_project_sparse As w nonneg fast_maxit cd_maxit cd_tol L1 =
     from_columns (nrows w)
       (map (\<lambda>i. c_nnls (gram_ridge w) (subtract_L1 L1 (sparse_rhs As w (nrows w) i))
                    (llt_solve (gram_ridge w)) fast_maxit cd_maxit cd_tol nonneg)
          [0..<sp_cols As]) \<and>
   Rcpp_project_dense A w nonneg fast_maxit cd_maxit cd_tol L1 =
     from_columns (nrows w)
       (map (\<lambda>i. c_nnls (gram_ridge w) (subtract_L1 L1 (dense_rhs A w (nrows w) i))
                    (llt_solve (gram_ridge w)) fast_maxit cd_maxit cd_tol nonneg)
          [0..<ncols A])"
proof -
  have dims: "nrows (gram_ridge w) = nrows w"
    using gram_ridge_dims by simp
  have entries: "\<forall>i<nrows w. length (gram_ridge w ! i) = nrows w \<and>
      (\<forall>j<nrows w. gram_ridge w ! i ! j
                    = dot (w ! i) (w ! j) + (if i = j then 1 / 10 ^ 15 else 0))"
    using gram_ridge_dims gram_ridge_nth by (simp add: nrows_def)
  have sparse: "c_project_sparse As w nonneg fast_maxit cd_maxit cd_tol L1 =
     from_columns (nrows w)
       (map (\<lambda>i. c_nnls (gram_ridge w) (subtract_L1 L1 (sparse_rhs As w (nrows w) i))
                    (llt_solve (gram_ridge w)) fast_maxit cd_maxit cd_tol nonneg)
          [0..<sp_cols As])"
    by (simp add: c_project_sparse_def Let_def dims)
  have dense: "Rcpp_project_dense A w nonneg fast_maxit cd_maxit cd_tol L1 =
     from_columns (nrows w)
       (map (\<lambda>i. c_nnls (gram_ridge w) (subtract_L1 L1 (dense_rhs A w (nrows w) i))
                    (llt_solve (gram_ridge w)) fast_maxit cd_maxit cd_tol nonneg)
          [0..<ncols A])"
    by (simp add: Rcpp_project_dense_def Let_def dims)
  from dims entries sparse dense show ?thesis by blast
qed

theorem projection_gram_ridge_witness:
  "gram_ridge [[1, 2], [3, 4]] = [[5 + 1 / 10 ^ 15, 11], [11, 25 + 1 / 10 ^ 15]]"
proof -
  let ?w = "[[1, 2], [3, 4 :: real]]"
  let ?G = "gram_ridge ?w"
  have n: "nrows ?w = 2" by (simp add: nrows_def)
  have all: "\<forall>i<2. length (?G ! i) = 2 \<and>
      (\<forall>j<2. ?G ! i ! j = dot (?w ! i) (?w ! j) + (if i = j then 1 / 10 ^ 15 else 0))"
    and len: "length ?G = 2"
    using projection_gram_ridge [of ?w] n by (simp_all add: nrows_def)
  have two: "\<And>P. (\<forall>i<2::nat. P i) = (P 0 \<and> P 1)"
    by (auto simp: less_2_cases_iff)
  from all have e: "length (?G ! 0) = 2" "length (?G ! 1) = 2"
    "?G ! 0 ! 0 = 5 + 1 / 10 ^ 15" "?G ! 0 ! 1 = 11" "?G ! 1 ! 0 = 11" "?G ! 1 ! 1 = 25 + 1 / 10 ^ 15"
    by (simp_all add: two dot_def)
  have row: "r = [r ! 0, r ! 1]" if "length r = 2" for r :: "'a list"
    using that by (cases r; cases "tl r") auto
  from row [OF len] row [OF e(1)] row [OF e(2)] e(3-6) show ?thesis
    by metis
qed

section \<open>Properties of the diagonal rescale\<close>

lemma sum_list_divide: "sum_list (map (\<lambda>v. v / c) r) = sum_list r / (c::real)"
  by (induction r) (simp_all add: add_divide_distrib)

lemma rescale_fold_gen:
  assumes step: "\<And>i X Y. f i (X, Y) = (X[i := scale (X ! i)], Y[i := di (X ! i)])"
  shows "k \<le> length h \<Longrightarrow> k \<le> length d \<Longrightarrow>
   fold f [0..<k] (h, d) =
     (map (\<lambda>i. scale (h ! i)) [0..<k] @ drop k h, map (\<lambda>i. di (h ! i)) [0..<k] @ drop k d)"
proof (induction k)
  case 0
  then show ?case by simp
next
  case (Suc k)
  have nth: "(map (\<lambda>i. scale (h ! i)) [0..<k] @ drop k h) ! k = h ! k"
    using Suc.prems by (simp add: nth_append)
  have "fold f [0..<Suc k] (h, d)
        = f k (map (\<lambda>i. scale (h ! i)) [0..<k] @ drop k h, map (\<lambda>i. di (h ! i)) [0..<k] @ drop k d)"
    using Suc by simp
  also have "\<dots> = ((map (\<lambda>i. scale (h ! i)) [0..<k] @ drop k h)[k := scale (h ! k)],
                    (map (\<lambda>i. di (h ! i)) [0..<k] @ drop k d)[k := di (h ! k)])"
    by (simp only: step nth)
  also have "(map (\<lambda>i. scale (h ! i)) [0..<k] @ drop k h)[k := scale (h ! k)]
             = map (\<lambda>i. scale (h ! i)) [0..<k] @ (drop k h)[0 := scale (h ! k)]"
    by (simp add: list_update_append)
  also have "(drop k h)[0 := scale (h ! k)] = scale (h ! k) # drop (Suc k) h"
    using Suc.prems by (simp add: Cons_nth_drop_Suc [symmetric])
  also have "(map (\<lambda>i. di (h ! i)) [0..<k] @ drop k d)[k := di (h ! k)]
             = map (\<lambda>i. di (h ! i)) [0..<k] @ (drop k d)[0 := di (h ! k)]"
    by (simp add: list_update_append)
  also have "(drop k d)[0 := di (h ! k)] = di (h ! k) # drop (Suc k) d"
    using Suc.prems by (simp add: Cons_nth_drop_Suc [symmetric])
  finally show ?case by simp
qed

lemma rescale_fold:
  "k \<le> length h \<Longrightarrow> k \<le> length d \<Longrightarrow>
   fold (rescale_row nc) [0..<k] (h, d) =
     (map (\<lambda>i. map (\<lambda>v. v / (sum_list (h ! i) + 1 / 10 ^ 15)) (take nc (h ! i)) @ drop nc (h ! i))
        [0..<k] @ drop k h,
      map (\<lambda>i. sum_list (h ! i) + 1 / 10 ^ 15) [0..<k] @ drop k d)"
  by (rule rescale_fold_gen) (simp_all add: rescale_row_def Let_def)

lemma rescale_nth:
  assumes "k \<le> length h" "k \<le> length d" "i < k" "length (h ! i) \<le> nc"
  shows "fst (rescale True k nc (h, d)) ! i = map (\<lambda>v. v / (sum_list (h ! i) + 1 / 10 ^ 15)) (h ! i)"
    and "snd (rescale True k nc (h, d)) ! i = sum_list (h ! i) + 1 / 10 ^ 15"
  using assms by (simp_all add: rescale_def rescale_fold nth_append)

text \<open>
  Claim C4, as the code has it. After the rescale with \<open>diag = true\<close>, row \<open>i\<close> of the factor
  has \<open>d[i] = s + 1e-15\<close> and, when that is not zero, row sum \<open>s / (s + 1e-15)\<close>, where \<open>s\<close>
  is the sum of the row before the rescale. That is within \<open>1e-12\<close> of 1 for every row with
  \<open>s \<ge> 1e-3\<close>, and it is 0 for a row of zeros. The factor is any
  matrix with at least \<open>k\<close> rows, \<open>nc\<close> is the column bound of the inner loop.
\<close>

theorem rescale_row_sum:
  assumes "k \<le> length h" "k \<le> length d" "i < k" "length (h ! i) \<le> nc"
  shows "snd (rescale True k nc (h, d)) ! i = sum_list (h ! i) + 1 / 10 ^ 15 \<and>
         (sum_list (h ! i) + 1 / 10 ^ 15 \<noteq> 0 \<longrightarrow>
            sum_list (fst (rescale True k nc (h, d)) ! i)
              = sum_list (h ! i) / (sum_list (h ! i) + 1 / 10 ^ 15)) \<and>
         (1 / 1000 \<le> sum_list (h ! i) \<longrightarrow>
            \<bar>sum_list (fst (rescale True k nc (h, d)) ! i) - 1\<bar> \<le> 1 / 10 ^ 12)"
proof -
  let ?s = "sum_list (h ! i)"
  have sum: "sum_list (fst (rescale True k nc (h, d)) ! i) = ?s / (?s + 1 / 10 ^ 15)"
    using rescale_nth(1) [OF assms] by (simp add: sum_list_divide)
  have "\<bar>?s / (?s + 1 / 10 ^ 15) - 1\<bar> \<le> 1 / 10 ^ 12" if "1 / 1000 \<le> ?s"
  proof -
    have pos: "0 < ?s + 1 / 10 ^ 15" using that by simp
    have "?s / (?s + 1 / 10 ^ 15) - 1 = - (1 / 10 ^ 15) / (?s + 1 / 10 ^ 15)"
      using pos by (simp add: field_simps)
    then have "\<bar>?s / (?s + 1 / 10 ^ 15) - 1\<bar> = (1 / 10 ^ 15) / (?s + 1 / 10 ^ 15)"
      using pos by simp
    also have "\<dots> \<le> (1 / 10 ^ 15) / (1 / 1000)"
      using that by (intro divide_left_mono) simp_all
    finally show ?thesis by simp
  qed
  with sum rescale_nth(2) [OF assms] show ?thesis by simp
qed

theorem rescale_row_sum_witness:
  "sum_list (fst (rescale True 2 2 ([[1, 3], [0, 0]], [1, 1])) ! 0) = 4 / (4 + 1 / 10 ^ 15) \<and>
   \<bar>sum_list (fst (rescale True 2 2 ([[1, 3], [0, 0]], [1, 1])) ! 0) - 1\<bar> \<le> 1 / 10 ^ 12"
  using rescale_row_sum [of 2 "[[1, 3], [0, 0]]" "[1, 1]" 0 2] by simp

text \<open>
  The claim as the specification states it fails on a row of zeros: with \<open>A\<close> all zero the
  first update of \<open>h\<close> gives a zero row, and its sum after the rescale is 0, not 1.
\<close>

theorem rescale_row_sum_counterexample:
  "st_h (nmf_dense_iteration [[0, 0]] [[0], [0]] False 1 True 0 0 True 10 100 (1 / 10 ^ 8)
           (nmf_init [[1]] 1 2)) = [[0, 0]] \<and>
   \<not> \<bar>sum_list ([[0, 0 :: real]] ! 0) - 1\<bar> \<le> 1 / 10 ^ 12"
proof -
  have g: "gram_ridge [[1]] = [[1 + 1 / 10 ^ 15]]"
    by (simp add: gram_ridge_def add_ridge_def mult_transpose_def dot_def ncols_def)
  have rhs: "dense_rhs [[0, 0]] [[1]] (Suc 0) 0 = [0]" "dense_rhs [[0, 0]] [[1]] (Suc 0) (Suc 0) = [0]"
    by (simp_all add: dense_rhs_def nrows_def mcol_def)
  have sol: "c_nnls [[c]] [0] (llt_solve [[c]]) 10 100 t True = [0]" if "0 < c" "0 \<le> t" for c t
    using that by (simp add: c_nnls_def llt_solve_1 fast_loop.simps c_cdnnls_def c_cdnnls_sweeps_def
        cd_gradient_def mat_vec_def dot_def cd_loop.simps cd_sweep_def cd_update_def cd_proposal_def)
  have proj: "Rcpp_project_dense [[0, 0]] [[1]] True 10 100 t 0 = [[0, 0]]" if "0 \<le> t" for t
    using that by (simp add: Rcpp_project_dense_def Let_def g nrows_def ncols_def rhs subtract_L1_def sol
        from_columns_def upt_0_2)
  have "fst (rescale True (Suc 0) (Suc (Suc 0)) ([[0, 0]], [1])) = [[0, 0]]"
    by (simp add: rescale_def rescale_row_def)
  then show ?thesis
    by (simp add: nmf_dense_iteration_def nmf_init_def Let_def proj ncols_def)
qed

section \<open>Properties of the drivers\<close>

lemma fold_update_upt:
  "n \<le> length ys \<Longrightarrow>
   fold (\<lambda>i zs. zs[i := f i]) [0..<n] ys = map f [0..<n] @ drop n ys"
proof (induction n)
  case 0
  then show ?case by simp
next
  case (Suc n)
  then have "fold (\<lambda>i zs. zs[i := f i]) [0..<Suc n] ys = (map f [0..<n] @ drop n ys)[n := f n]"
    by simp
  also have "\<dots> = map f [0..<n] @ (drop n ys)[0 := f n]"
    by (simp add: list_update_append)
  also have "(drop n ys)[0 := f n] = f n # drop (Suc n) ys"
    using Suc.prems by (simp add: Cons_nth_drop_Suc [symmetric])
  finally show ?case by simp
qed

lemma map_nth_upt: "map (\<lambda>i. x ! ([0..<length x] ! i)) [0..<length x] = x"
  by (rule nth_equalityI) simp_all

lemma reorder_rows_eq:
  "length ind = nrows x \<Longrightarrow> reorder_rows x ind = map (\<lambda>i. x ! (ind ! i)) [0..<length ind]"
  by (simp add: reorder_rows_def fold_update_upt)

lemma reorder_eq:
  "length ind = length x \<Longrightarrow> reorder x ind = map (\<lambda>i. x ! (ind ! i)) [0..<length ind]"
  by (simp add: reorder_def fold_update_upt)

text \<open>
  A call with \<open>maxit = 0\<close>: the loop body never runs and the drivers go straight to the
  final reordering. Keys of which none precedes another are left in place by insertion
  sort, so also by the sort of libstdc++ on ranges of at most 16 elements.
\<close>

lemma nmf_maxit_zero_finish:
  "Rcpp_nmf_sparse std_sort As Ats symmetric w tol nonneg L1_w L1_h 0 diag fast_maxit cd_maxit cd_tol
     = nmf_finish std_sort diag (nmf_init w (nrows w) (sp_cols As), 0)"
  "Rcpp_nmf_dense std_sort A symmetric w tol nonneg L1_w L1_h 0 diag fast_maxit cd_maxit cd_tol
     = nmf_finish std_sort diag (nmf_init w (nrows w) (ncols A), 0)"
  by (simp_all add: Rcpp_nmf_sparse_def Rcpp_nmf_dense_def Let_def als_loop.simps)

lemma nmf_finish_init_plain:
  "nmf_finish std_sort False (nmf_init w (nrows w) n, 0) = spec_maxit_zero w n"
  by (simp add: nmf_finish_def nmf_init_def spec_maxit_zero_def)

lemma map_nth_index: "map (\<lambda>i. f (xs ! i)) [0..<length xs] = map f xs"
  by (rule nth_equalityI) simp_all

lemma nmf_finish_init_sorted:
  assumes "sort (sort_index std_sort (replicate (nrows w) 1)) = [0..<nrows w]"
  shows "nmf_finish std_sort True (nmf_init w (nrows w) n, 0)
         = spec_maxit_zero (map ((!) w) (sort_index std_sort (replicate (nrows w) 1))) n"
proof -
  let ?k = "nrows w"
  let ?indx = "sort_index std_sort (replicate ?k 1)"
  have "length ?indx = length (sort ?indx)" by simp
  with assms have len: "length ?indx = ?k" by simp
  have "set ?indx = set (sort ?indx)" by simp
  with assms have "set ?indx = {0..<?k}" by simp
  then have lt: "\<And>i. i < ?k \<Longrightarrow> ?indx ! i < ?k"
    using len by (metis atLeastLessThan_iff nth_mem)
  have "reorder_rows w ?indx = map (\<lambda>i. w ! (?indx ! i)) [0..<length ?indx]"
    using len by (rule reorder_rows_eq)
  then have w: "reorder_rows w ?indx = map ((!) w) ?indx"
    by (simp only: map_nth_index)
  have "map (\<lambda>i. replicate ?k (1::real) ! (?indx ! i)) [0..<length ?indx] = replicate ?k 1"
    using len lt by (intro nth_equalityI) simp_all
  then have d: "reorder (replicate ?k 1) ?indx = replicate ?k 1"
    using len by (simp only: reorder_eq length_replicate)
  have "map (\<lambda>i. replicate ?k (replicate n (0::real)) ! (?indx ! i)) [0..<length ?indx]
        = replicate ?k (replicate n 0)"
    using len lt by (intro nth_equalityI) simp_all
  moreover have "length ?indx = nrows (replicate ?k (replicate n (0::real)))"
    using len by (simp add: nrows_def)
  ultimately have h: "reorder_rows (replicate ?k (replicate n 0)) ?indx
                      = replicate ?k (replicate n 0)"
    by (simp only: reorder_rows_eq)
  have k: "nrows (map ((!) w) ?indx) = ?k"
    using len by (simp add: nrows_def)
  show ?thesis
    by (simp add: nmf_finish_def nmf_init_def spec_maxit_zero_def Let_def w d h k)
qed

lemma insertion_step_ties:
  assumes "\<forall>x\<in>set xs. \<forall>y\<in>set xs. \<not> cmp x y" "i < length xs"
  shows "insertion_step cmp i xs = xs"
proof -
  from assms(2) have "0 < length xs" "i - 1 < length xs" by linarith+
  with assms(2) have "xs ! i \<in> set xs" "xs ! 0 \<in> set xs" "xs ! (i - 1) \<in> set xs"
    by (simp_all only: nth_mem)
  with assms(1) have "\<not> cmp (xs ! i) (xs ! 0)" "\<not> cmp (xs ! i) (xs ! (i - 1))" by blast+
  then show ?thesis
    by (simp add: insertion_step_def unguarded_linear_insert_def linear_shift.simps)
qed

lemma insertion_fold_ties:
  "\<forall>x\<in>set xs. \<forall>y\<in>set xs. \<not> cmp x y \<Longrightarrow> set js \<subseteq> {..<length xs} \<Longrightarrow>
   fold (insertion_step cmp) js xs = xs"
  by (induction js) (simp_all add: insertion_step_ties)

lemma insertion_sort_ties:
  "\<forall>x\<in>set xs. \<forall>y\<in>set xs. \<not> cmp x y \<Longrightarrow> insertion_sort cmp xs = xs"
  by (simp add: insertion_sort_def insertion_sort_upto_def insertion_fold_ties subset_iff)

lemma gnu_sort_ties:
  "length xs \<le> 16 \<Longrightarrow> \<forall>x\<in>set xs. \<forall>y\<in>set xs. \<not> cmp x y \<Longrightarrow> gnu_sort cmp xs = xs"
  by (simp add: gnu_sort_def introsort_loop.simps final_insertion_sort_def insertion_sort_upto_def
      insertion_fold_ties subset_iff)

lemma sort_index_gnu_ones:
  "k \<le> 16 \<Longrightarrow> sort_index gnu_sort (replicate k 1) = [0..<k]"
  by (simp add: sort_index_def gnu_sort_ties)

lemma reorder_identity:
  "map ((!) w) [0..<nrows w] = w"
  by (simp add: nrows_def map_nth)

text \<open>
  Claim C9, as the code has it. With \<open>maxit = 0\<close> the loop body never runs: \<open>h\<close> stays the
  zero \<open>k\<close> by \<open>A.cols()\<close> matrix, \<open>d\<close> all ones, \<open>tol = 1\<close> and \<open>iter = 0\<close>. Without \<open>diag\<close>
  both general drivers return these and the initial \<open>w\<close> transposed, whatever the sort of
  the library. With \<open>diag\<close> the factors are still reordered by the sort index of the
  all-ones \<open>d\<close>, and the order of equal keys is the choice of the library. The sort of
  libstdc++ leaves up to 16 equal keys in place: for \<open>k \<le> 16\<close> the drivers return the
  initial \<open>w\<close> transposed, with \<open>diag\<close> or without. For every sort that returns a
  permutation of the range when no element precedes another, as the standard demands
  (the index put in ascending order is \<open>0 .. k - 1\<close>), \<open>d\<close>, \<open>h\<close>, \<open>tol\<close> and \<open>iter\<close> are as
  said and \<open>w\<close> is returned with its rows in the order of the sort index, transposed.
\<close>

theorem nmf_maxit_zero:
  "(\<not> diag \<longrightarrow>
      Rcpp_nmf_sparse std_sort As Ats symmetric w tol nonneg L1_w L1_h 0 diag fast_maxit cd_maxit
          cd_tol = spec_maxit_zero w (sp_cols As) \<and>
      Rcpp_nmf_dense std_sort A symmetric w tol nonneg L1_w L1_h 0 diag fast_maxit cd_maxit
          cd_tol = spec_maxit_zero w (ncols A)) \<and>
   (nrows w \<le> 16 \<longrightarrow>
      Rcpp_nmf_sparse gnu_sort As Ats symmetric w tol nonneg L1_w L1_h 0 diag fast_maxit cd_maxit
          cd_tol = spec_maxit_zero w (sp_cols As) \<and>
      Rcpp_nmf_dense gnu_sort A symmetric w tol nonneg L1_w L1_h 0 diag fast_maxit cd_maxit
          cd_tol = spec_maxit_zero w (ncols A)) \<and>
   ((\<forall>cmp. (\<forall>i<nrows w. \<forall>j<nrows w. \<not> cmp i j) \<longrightarrow>
             sort (std_sort cmp [0..<nrows w]) = [0..<nrows w]) \<longrightarrow>
      (let indx = sort_index std_sort (replicate (nrows w) 1);
           w' = (if diag then map ((!) w) indx else w)
       in sort indx = [0..<nrows w] \<and>
          Rcpp_nmf_sparse std_sort As Ats symmetric w tol nonneg L1_w L1_h 0 diag fast_maxit
              cd_maxit cd_tol = spec_maxit_zero w' (sp_cols As) \<and>
          Rcpp_nmf_dense std_sort A symmetric w tol nonneg L1_w L1_h 0 diag fast_maxit
              cd_maxit cd_tol = spec_maxit_zero w' (ncols A)))"
proof (intro conjI impI)
  assume "\<not> diag"
  then show "Rcpp_nmf_sparse std_sort As Ats symmetric w tol nonneg L1_w L1_h 0 diag fast_maxit
      cd_maxit cd_tol = spec_maxit_zero w (sp_cols As)"
    and "Rcpp_nmf_dense std_sort A symmetric w tol nonneg L1_w L1_h 0 diag fast_maxit cd_maxit
      cd_tol = spec_maxit_zero w (ncols A)"
    by (simp_all add: nmf_maxit_zero_finish nmf_finish_init_plain)
next
  assume k: "nrows w \<le> 16"
  have "nmf_finish gnu_sort diag (nmf_init w (nrows w) n, 0) = spec_maxit_zero w n" for n
  proof (cases diag)
    case True
    have "sort (sort_index gnu_sort (replicate (nrows w) 1)) = [0..<nrows w]"
      using k by (simp add: sort_index_gnu_ones sort_upt)
    from nmf_finish_init_sorted [OF this, of n] True k show ?thesis
      by (simp add: sort_index_gnu_ones reorder_identity)
  next
    case False
    then show ?thesis by (simp add: nmf_finish_init_plain)
  qed
  then show "Rcpp_nmf_sparse gnu_sort As Ats symmetric w tol nonneg L1_w L1_h 0 diag fast_maxit
      cd_maxit cd_tol = spec_maxit_zero w (sp_cols As)"
    and "Rcpp_nmf_dense gnu_sort A symmetric w tol nonneg L1_w L1_h 0 diag fast_maxit cd_maxit
      cd_tol = spec_maxit_zero w (ncols A)"
    by (simp_all add: nmf_maxit_zero_finish)
next
  assume perm: "\<forall>cmp. (\<forall>i<nrows w. \<forall>j<nrows w. \<not> cmp i j) \<longrightarrow>
                 sort (std_sort cmp [0..<nrows w]) = [0..<nrows w]"
  let ?indx = "sort_index std_sort (replicate (nrows w) 1)"
  have m: "sort ?indx = [0..<nrows w]"
    using perm [rule_format, of "\<lambda>i1 i2. replicate (nrows w) (1::real) ! i1 > replicate (nrows w) 1 ! i2"]
    by (simp add: sort_index_def)
  have "nmf_finish std_sort diag (nmf_init w (nrows w) n, 0)
        = spec_maxit_zero (if diag then map ((!) w) ?indx else w) n" for n
    using nmf_finish_init_sorted [OF m, of n] by (simp add: nmf_finish_init_plain)
  with m show "let indx = ?indx; w' = (if diag then map ((!) w) indx else w)
       in sort indx = [0..<nrows w] \<and>
          Rcpp_nmf_sparse std_sort As Ats symmetric w tol nonneg L1_w L1_h 0 diag fast_maxit
              cd_maxit cd_tol = spec_maxit_zero w' (sp_cols As) \<and>
          Rcpp_nmf_dense std_sort A symmetric w tol nonneg L1_w L1_h 0 diag fast_maxit
              cd_maxit cd_tol = spec_maxit_zero w' (ncols A)"
    by (simp add: nmf_maxit_zero_finish Let_def)
qed

text \<open>
  The three cases for \<open>k = 2\<close>, on a 2 by 3 matrix, dense and sparse: insertion sort with
  \<open>diag\<close>, the sort of libstdc++ with \<open>diag\<close>, and no \<open>diag\<close>.
\<close>

theorem nmf_maxit_zero_witness:
  "Rcpp_nmf_dense insertion_sort [[1, 2, 3], [4, 5, 6]] False [[1, 2], [3, 4]] (1 / 1000) True 0 0 0
      True 10 100 (1 / 10 ^ 8)
     = \<lparr>res_w = [[1, 3], [2, 4]], res_d = [1, 1], res_h = [[0, 0, 0], [0, 0, 0]],
        res_tol = 1, res_iter = 0\<rparr> \<and>
   Rcpp_nmf_sparse insertion_sort
      \<lparr>sp_i = [0, 1, 0, 1, 0, 1], sp_p = [0, 2, 4, 6], sp_Dim = [2, 3], sp_x = [1, 4, 2, 5, 3, 6]\<rparr>
      \<lparr>sp_i = [0, 1, 2, 0, 1, 2], sp_p = [0, 3, 6], sp_Dim = [3, 2], sp_x = [1, 2, 3, 4, 5, 6]\<rparr>
      False [[1, 2], [3, 4]] (1 / 1000) True 0 0 0 True 10 100 (1 / 10 ^ 8)
     = \<lparr>res_w = [[1, 3], [2, 4]], res_d = [1, 1], res_h = [[0, 0, 0], [0, 0, 0]],
        res_tol = 1, res_iter = 0\<rparr> \<and>
   Rcpp_nmf_dense gnu_sort [[1, 2, 3], [4, 5, 6]] False [[1, 2], [3, 4]] (1 / 1000) True 0 0 0
      True 10 100 (1 / 10 ^ 8)
     = \<lparr>res_w = [[1, 3], [2, 4]], res_d = [1, 1], res_h = [[0, 0, 0], [0, 0, 0]],
        res_tol = 1, res_iter = 0\<rparr> \<and>
   Rcpp_nmf_dense insertion_sort [[1, 2, 3], [4, 5, 6]] False [[1, 2], [3, 4]] (1 / 1000) True 0 0 0
      False 10 100 (1 / 10 ^ 8)
     = \<lparr>res_w = [[1, 3], [2, 4]], res_d = [1, 1], res_h = [[0, 0, 0], [0, 0, 0]],
        res_tol = 1, res_iter = 0\<rparr>"
proof -
  define As where "As =
    \<lparr>sp_i = [0, 1, 0, 1, 0, 1], sp_p = [0, 2, 4, 6], sp_Dim = [2, 3], sp_x = [1, 4, 2, 5, 3, 6 :: real]\<rparr>"
  define Ats where "Ats =
    \<lparr>sp_i = [0, 1, 2, 0, 1, 2], sp_p = [0, 3, 6], sp_Dim = [3, 2], sp_x = [1, 2, 3, 4, 5, 6 :: real]\<rparr>"
  let ?A = "[[1, 2, 3], [4, 5, 6 :: real]]"
  let ?w = "[[1, 2], [3, 4 :: real]]"
  let ?r = "\<lparr>res_w = [[1, 3], [2, 4 :: real]], res_d = [1, 1], res_h = [[0, 0, 0], [0, 0, 0]],
        res_tol = 1, res_iter = 0\<rparr>"
  have k: "nrows ?w = 2" by (simp add: nrows_def)
  have n: "ncols ?A = 3" "sp_cols As = 3" by (simp_all add: ncols_def sp_cols_def As_def)
  have spec: "spec_maxit_zero ?w 3 = ?r"
    by (simp add: spec_maxit_zero_def k transpose_mat_def ncols_def mcol_def upt_0_2
        numeral_2_eq_2 numeral_3_eq_3)
  have perm: "\<forall>cmp. (\<forall>i<nrows ?w. \<forall>j<nrows ?w. \<not> cmp i j) \<longrightarrow>
                sort (insertion_sort cmp [0..<nrows ?w]) = [0..<nrows ?w]"
    by (simp add: k insertion_sort_ties sort_upt)
  have indx: "sort_index insertion_sort (replicate (nrows ?w) 1) = [0, 1]"
    by (simp add: k sort_index_def insertion_sort_ties upt_0_2)
  note inst = nmf_maxit_zero [where w = "?w" and A = "?A" and As = As and Ats = Ats
      and symmetric = False and tol = "1 / 1000" and nonneg = True and L1_w = 0 and L1_h = 0
      and fast_maxit = 10 and cd_maxit = 100 and cd_tol = "1 / 10 ^ 8"]
  from inst [where std_sort = insertion_sort and diag = True] perm
  have one: "Rcpp_nmf_dense insertion_sort ?A False ?w (1 / 1000) True 0 0 0 True 10 100 (1 / 10 ^ 8) = ?r"
    "Rcpp_nmf_sparse insertion_sort As Ats False ?w (1 / 1000) True 0 0 0 True 10 100 (1 / 10 ^ 8) = ?r"
    by (simp_all add: Let_def indx n spec)
  from inst [where std_sort = insertion_sort and diag = True]
  have two: "Rcpp_nmf_dense gnu_sort ?A False ?w (1 / 1000) True 0 0 0 True 10 100 (1 / 10 ^ 8) = ?r"
    by (simp add: k n spec)
  from inst [where std_sort = insertion_sort and diag = False]
  have three: "Rcpp_nmf_dense insertion_sort ?A False ?w (1 / 1000) True 0 0 0 False 10 100 (1 / 10 ^ 8) = ?r"
    by (simp add: n spec)
  from one two three show ?thesis
    by (simp only: As_def Ats_def simp_thms)
qed

text \<open>
  The claim as the specification states it fails for \<open>k = 17\<close> with \<open>diag\<close> and the sort of
  libstdc++. The partition around the median exchanges the equal keys: the sort index of
  the all-ones \<open>d\<close> is \<open>8, 16, 15, 14, 13, 12, 11, 10, 9, 0, 7, 6, 5, 4, 3, 2, 1\<close>, and the
  rows of \<open>w\<close>, here the 17 by 1 matrix with the entries \<open>0 .. 16\<close>, are returned in that
  order.
\<close>

lemma sort_index_gnu_17:
  "sort_index gnu_sort (replicate 17 1)
     = [8, 16, 15, 14, 13, 12, 11, 10, 9, 0, 7, 6, 5, 4, 3, 2, 1]"
  by code_simp

lemma reorder_17:
  "transpose_mat (reorder_rows
      [[0], [1], [2], [3], [4], [5], [6], [7], [8], [9], [10], [11], [12], [13], [14], [15], [16]]
      [8, 16, 15, 14, 13, 12, 11, 10, 9, 0, 7, 6, 5, 4, 3, 2, 1])
     = [[8, 16, 15, 14, 13, 12, 11, 10, 9, 0, 7, 6, 5, 4, 3, 2, 1]]"
  by code_simp

lemma transpose_17:
  "transpose_mat
      [[0], [1], [2], [3], [4], [5], [6], [7], [8], [9], [10], [11], [12], [13], [14], [15], [16]]
     = [[0, 1, 2, 3, 4, 5, 6, 7, 8, 9, 10, 11, 12, 13, 14, 15, 16]]"
  by code_simp

theorem nmf_maxit_zero_counterexample:
  "res_w (Rcpp_nmf_dense gnu_sort [[1]] False
      [[0], [1], [2], [3], [4], [5], [6], [7], [8], [9], [10], [11], [12], [13], [14], [15], [16]]
      (1 / 1000) True 0 0 0 True 10 100 (1 / 10 ^ 8))
     = [[8, 16, 15, 14, 13, 12, 11, 10, 9, 0, 7, 6, 5, 4, 3, 2, 1]] \<and>
   transpose_mat
      [[0], [1], [2], [3], [4], [5], [6], [7], [8], [9], [10], [11], [12], [13], [14], [15], [16]]
     = [[0, 1, 2, 3, 4, 5, 6, 7, 8, 9, 10, 11, 12, 13, 14, 15, 16]] \<and>
   res_w (Rcpp_nmf_dense gnu_sort [[1]] False
      [[0], [1], [2], [3], [4], [5], [6], [7], [8], [9], [10], [11], [12], [13], [14], [15], [16]]
      (1 / 1000) True 0 0 0 True 10 100 (1 / 10 ^ 8))
     \<noteq> transpose_mat
      [[0], [1], [2], [3], [4], [5], [6], [7], [8], [9], [10], [11], [12], [13], [14], [15], [16]]"
proof -
  define w17 :: mat where
    "w17 = [[0], [1], [2], [3], [4], [5], [6], [7], [8], [9], [10], [11], [12], [13], [14], [15], [16]]"
  have k: "nrows w17 = 17" by (simp add: w17_def nrows_def)
  have "res_w (Rcpp_nmf_dense gnu_sort [[1]] False w17 (1 / 1000) True 0 0 0 True 10 100 (1 / 10 ^ 8))
        = transpose_mat (reorder_rows w17 (sort_index gnu_sort (replicate 17 1)))"
    by (simp add: nmf_maxit_zero_finish nmf_finish_def nmf_init_def k Let_def)
  also have "\<dots> = [[8, 16, 15, 14, 13, 12, 11, 10, 9, 0, 7, 6, 5, 4, 3, 2, 1]]"
    by (simp only: sort_index_gnu_17 w17_def reorder_17)
  finally show ?thesis
    by (simp only: w17_def transpose_17) simp
qed

lemma als_loop_skip:
  "\<forall>j\<in>{1..n}. \<not> st_tol ((body ^^ j) s) < tol \<Longrightarrow> it + n \<le> maxit \<Longrightarrow>
   als_loop body tol maxit it s = als_loop body tol maxit (it + n) ((body ^^ n) s)"
proof (induction n arbitrary: it s)
  case 0
  then show ?case by simp
next
  case (Suc n)
  have first: "\<not> st_tol (body s) < tol"
    using Suc.prems(1) by (auto dest: bspec [where x = 1])
  have rest: "\<forall>j\<in>{1..n}. \<not> st_tol ((body ^^ j) (body s)) < tol"
  proof
    fix j assume "j \<in> {1..n}"
    then have "Suc j \<in> {1..Suc n}" by simp
    with Suc.prems(1) have "\<not> st_tol ((body ^^ Suc j) s) < tol" by blast
    then show "\<not> st_tol ((body ^^ j) (body s)) < tol" by (simp add: funpow_swap1)
  qed
  have "als_loop body tol maxit it s = als_loop body tol maxit (Suc it) (body s)"
    using Suc.prems(2) first by (subst als_loop.simps) (simp add: Let_def)
  also have "\<dots> = als_loop body tol maxit (Suc it + n) ((body ^^ n) (body s))"
    using Suc.IH [OF rest, of "Suc it"] Suc.prems(2) by simp
  finally show ?case by (simp add: funpow_swap1)
qed

lemma als_loop_limit:
  "never_converges body s0 tol maxit \<Longrightarrow>
   als_loop body tol maxit 0 s0 = ((body ^^ maxit) s0, maxit)"
  using als_loop_skip [of maxit body s0 tol 0 maxit]
  by (simp add: never_converges_def als_loop.simps [of body tol maxit maxit])

lemma als_loop_converges:
  assumes "converges_at body s0 tol t" "t \<le> maxit"
  shows "als_loop body tol maxit 0 s0 = ((body ^^ t) s0, t - 1)"
proof -
  from assms obtain n where t: "t = Suc n" by (cases t) (auto simp: converges_at_def)
  have before: "\<forall>j\<in>{1..n}. \<not> st_tol ((body ^^ j) s0) < tol"
    using assms(1) by (auto simp: converges_at_def t)
  have "als_loop body tol maxit 0 s0 = als_loop body tol maxit n ((body ^^ n) s0)"
    using als_loop_skip [OF before, of 0 maxit] assms(2) t by simp
  also have "\<dots> = ((body ^^ t) s0, n)"
    using assms t by (subst als_loop.simps) (simp add: converges_at_def Let_def)
  finally show ?thesis by (simp add: t)
qed

lemma first_convergence:
  assumes "\<not> never_converges body s0 tol maxit"
  shows "\<exists>t\<le>maxit. converges_at body s0 tol t"
proof -
  let ?P = "\<lambda>j. 1 \<le> j \<and> st_tol ((body ^^ j) s0) < tol"
  from assms obtain j where j: "?P j" "j \<le> maxit"
    by (auto simp: never_converges_def)
  define t where "t = (LEAST j. ?P j)"
  have "?P t" unfolding t_def using j(1) by (rule LeastI)
  moreover have "t \<le> j" unfolding t_def using j(1) by (rule Least_le)
  moreover have "\<not> ?P i" if "i < t" for i
    using that not_less_Least unfolding t_def by blast
  ultimately show ?thesis using j(2)
    by (intro exI [of _ t]) (auto simp: converges_at_def)
qed

lemma als_loop_iter:
  "(snd (als_loop body tol maxit 0 s0) = maxit \<longleftrightarrow> never_converges body s0 tol maxit) \<and>
   (\<forall>t. converges_at body s0 tol t \<and> t \<le> maxit \<longrightarrow> snd (als_loop body tol maxit 0 s0) = t - 1)"
proof -
  have conv: "snd (als_loop body tol maxit 0 s0) = t - 1"
    if "converges_at body s0 tol t" "t \<le> maxit" for t
    using als_loop_converges [OF that] by simp
  have "snd (als_loop body tol maxit 0 s0) \<noteq> maxit" if "\<not> never_converges body s0 tol maxit"
  proof -
    from first_convergence [OF that] obtain t where t: "t \<le> maxit" "converges_at body s0 tol t"
      by blast
    then have "1 \<le> t" by (simp add: converges_at_def)
    with conv [OF t(2) t(1)] t(1) show ?thesis by simp
  qed
  with als_loop_limit [of body s0 tol maxit] conv show ?thesis by auto
qed

lemma res_iter_finish: "res_iter (nmf_finish std_sort diag sit) = snd sit"
  by (cases sit) (simp add: nmf_finish_def Let_def)

text \<open>
  Claim C1, as the code has it. The returned \<open>iter\<close> is the value of the loop counter at the
  exit, and the counter is not incremented on \<open>break\<close>. So \<open>iter = maxit\<close> exactly when no
  pass among the first \<open>maxit\<close> ended with \<open>tol_ < tol\<close> (the loop left by the limit), and when
  the loop converges after its \<open>t\<close>-th complete pass, \<open>t \<le> maxit\<close>, then \<open>iter = t - 1\<close>.
\<close>

theorem nmf_iter_field:
  "(res_iter (Rcpp_nmf_dense std_sort A symmetric w tol nonneg L1_w L1_h maxit diag fast_maxit cd_maxit cd_tol)
      = maxit \<longleftrightarrow>
    never_converges
      (nmf_dense_iteration A (if symmetric then [] else transpose_mat A) symmetric (nrows w)
         nonneg L1_w L1_h diag fast_maxit cd_maxit cd_tol)
      (nmf_init w (nrows w) (ncols A)) tol maxit) \<and>
   (\<forall>t. converges_at
          (nmf_dense_iteration A (if symmetric then [] else transpose_mat A) symmetric (nrows w)
             nonneg L1_w L1_h diag fast_maxit cd_maxit cd_tol)
          (nmf_init w (nrows w) (ncols A)) tol t \<and> t \<le> maxit \<longrightarrow>
        res_iter (Rcpp_nmf_dense std_sort A symmetric w tol nonneg L1_w L1_h maxit diag fast_maxit cd_maxit cd_tol)
          = t - 1) \<and>
   (res_iter (Rcpp_nmf_sparse std_sort As Ats symmetric w tol nonneg L1_w L1_h maxit diag fast_maxit cd_maxit cd_tol)
      = maxit \<longleftrightarrow>
    never_converges
      (nmf_sparse_iteration As Ats symmetric (nrows w) nonneg L1_w L1_h diag fast_maxit cd_maxit cd_tol)
      (nmf_init w (nrows w) (sp_cols As)) tol maxit) \<and>
   (\<forall>t. converges_at
          (nmf_sparse_iteration As Ats symmetric (nrows w) nonneg L1_w L1_h diag fast_maxit cd_maxit cd_tol)
          (nmf_init w (nrows w) (sp_cols As)) tol t \<and> t \<le> maxit \<longrightarrow>
        res_iter (Rcpp_nmf_sparse std_sort As Ats symmetric w tol nonneg L1_w L1_h maxit diag fast_maxit cd_maxit cd_tol)
          = t - 1)"
proof -
  let ?bd = "nmf_dense_iteration A (if symmetric then [] else transpose_mat A) symmetric (nrows w)
         nonneg L1_w L1_h diag fast_maxit cd_maxit cd_tol"
  let ?bs = "nmf_sparse_iteration As Ats symmetric (nrows w) nonneg L1_w L1_h diag fast_maxit cd_maxit cd_tol"
  have d: "res_iter (Rcpp_nmf_dense std_sort A symmetric w tol nonneg L1_w L1_h maxit diag fast_maxit cd_maxit cd_tol)
           = snd (als_loop ?bd tol maxit 0 (nmf_init w (nrows w) (ncols A)))"
    by (simp add: Rcpp_nmf_dense_def Let_def res_iter_finish)
  have s: "res_iter (Rcpp_nmf_sparse std_sort As Ats symmetric w tol nonneg L1_w L1_h maxit diag fast_maxit cd_maxit cd_tol)
           = snd (als_loop ?bs tol maxit 0 (nmf_init w (nrows w) (sp_cols As)))"
    by (simp add: Rcpp_nmf_sparse_def Let_def res_iter_finish)
  show ?thesis
    unfolding d s
    using als_loop_iter [of ?bd tol maxit "nmf_init w (nrows w) (ncols A)"]
      als_loop_iter [of ?bs tol maxit "nmf_init w (nrows w) (sp_cols As)"]
    by blast
qed

text \<open>
  A run of the dense driver that converges in its first pass: \<open>A\<close> is the 2 by 1 matrix with
  column \<open>(1, 0)\<close> and the initial \<open>w\<close> is the row \<open>(1, 0)\<close>. After the first pass \<open>w\<close> is
  \<open>(p, 0)\<close> with \<open>p > 0\<close>, so \<open>tol_ = 0\<close>.
\<close>

lemma c_cdnnls_fixed:
  assumes "0 \<le> cd_tol" "\<forall>i<length x. cd_proposal a nonneg x (cd_gradient a b x) i = x ! i"
  shows "c_cdnnls a b x cd_maxit cd_tol nonneg = x"
proof (cases "0 < cd_maxit")
  case True
  have "cd_loop a nonneg cd_maxit cd_tol 0 (x, cd_gradient a b x, 1 + cd_tol)
        = cd_loop a nonneg cd_maxit cd_tol (Suc 0) (x, cd_gradient a b x, 0)"
    using True cd_sweep_fixed [OF assms(2)] by (subst cd_loop.simps) simp
  also have "\<dots> = (x, Suc 0)"
    using assms(1) by (simp add: cd_loop.simps)
  finally show ?thesis by (simp add: c_cdnnls_def c_cdnnls_sweeps_def)
next
  case False
  then show ?thesis by (simp add: c_cdnnls_def c_cdnnls_sweeps_def cd_loop.simps)
qed

lemma c_nnls_1:
  assumes "0 < c" "0 \<le> b" "0 \<le> cd_tol"
  shows "c_nnls [[c]] [b] (llt_solve [[c]]) fast_maxit cd_maxit cd_tol True = [b / c]"
proof -
  have x: "llt_solve [[c]] [b] = [b / c]" using assms(1) by (rule llt_solve_1)
  have "0 \<le> b / c" using assms by simp
  then have fast: "fast_loop [[c]] [b] True fast_maxit 0 [b / c] = [b / c]"
    by (simp add: fast_loop.simps)
  have "cd_gradient [[c]] [b] [b / c] = [0]"
    using assms(1) by (simp add: cd_gradient_def mat_vec_def dot_def)
  then have "\<forall>i<length [b / c]. cd_proposal [[c]] True [b / c] (cd_gradient [[c]] [b] [b / c]) i = [b / c] ! i"
    using \<open>0 \<le> b / c\<close> by (simp add: cd_proposal_def)
  from c_cdnnls_fixed [OF assms(3) this] x fast show ?thesis
    by (simp add: c_nnls_def Let_def)
qed

lemma cor_example: "0 < p \<Longrightarrow> cor [[p, 0]] [[1, 0]] = 0"
  by (simp add: cor_def flatten_def transpose_mat_def ncols_def mcol_def upt_0_2 Let_def
      flip: power2_eq_square)

lemma gram_ridge_1: "gram_ridge [r] = [[dot r r + 1 / 10 ^ 15]]"
  by (simp add: gram_ridge_eq)

lemma first_pass:
  assumes "0 \<le> cd_tol"
  shows "st_tol (nmf_dense_iteration [[1], [0]] [[1, 0]] False (Suc 0) True 0 0 True 10 100 cd_tol
           (nmf_init [[1, 0]] (Suc 0) (Suc 0))) = 0"
proof -
  define c :: real where "c = 1 + 1 / 10 ^ 15"
  have c: "0 < c" by (simp add: c_def)
  have h: "Rcpp_project_dense [[1], [0]] [[1, 0]] True 10 100 cd_tol 0 = [[1 / c]]"
    using c_nnls_1 [of c 1 cd_tol 10 100] c assms
    by (simp add: Rcpp_project_dense_def Let_def gram_ridge_1 dot_def nrows_def ncols_def
        dense_rhs_def mcol_def subtract_L1_def from_columns_def upt_0_2 c_def)
  define q where "q = 1 / c / (1 / c + 1 / 10 ^ 15)"
  have q: "0 < q" unfolding q_def using c by (intro divide_pos_pos add_pos_pos) simp_all
  have hd: "rescale True (Suc 0) (Suc 0) ([[1 / c]], [1]) = ([[q]], [1 / c + 1 / 10 ^ 15])"
    by (simp add: rescale_def rescale_row_def Let_def q_def)
  define c2 where "c2 = q * q + 1 / 10 ^ 15"
  have c2: "0 < c2" unfolding c2_def using q by (intro add_pos_pos mult_pos_pos) simp_all
  have w: "Rcpp_project_dense [[1, 0]] [[q]] True 10 100 cd_tol 0 = [[q / c2, 0]]"
    using c_nnls_1 [of c2 q cd_tol 10 100] c_nnls_1 [of c2 0 cd_tol 10 100] c2 q assms
    by (simp add: Rcpp_project_dense_def Let_def gram_ridge_1 dot_def nrows_def ncols_def
        dense_rhs_def mcol_def subtract_L1_def from_columns_def upt_0_2 c2_def)
  define p where "p = q / c2 / (q / c2 + 1 / 10 ^ 15)"
  have p: "0 < p" unfolding p_def using q c2 by (intro divide_pos_pos add_pos_pos) simp_all
  have wd: "rescale True (Suc 0) (Suc (Suc 0)) ([[q / c2, 0]], [e])
            = ([[p, 0]], [q / c2 + 1 / 10 ^ 15])" for e
    by (simp add: rescale_def rescale_row_def Let_def p_def)
  show ?thesis
    using cor_example [OF p]
    by (simp add: nmf_dense_iteration_def nmf_init_def Let_def h hd w wd nrows_def ncols_def)
qed


lemma first_pass_converges:
  "0 \<le> tol \<Longrightarrow> 0 \<le> cd_tol \<Longrightarrow>
   (converges_at
     (nmf_dense_iteration [[1], [0]] [[1, 0]] False (Suc 0) True 0 0 True 10 100 cd_tol)
     (nmf_init [[1, 0]] (Suc 0) (Suc 0)) tol (Suc 0) \<longleftrightarrow> 0 < tol) \<and>
   (never_converges
     (nmf_dense_iteration [[1], [0]] [[1, 0]] False (Suc 0) True 0 0 True 10 100 cd_tol)
     (nmf_init [[1, 0]] (Suc 0) (Suc 0)) tol (Suc 0) \<longleftrightarrow> tol = 0)"
  by (auto simp add: converges_at_def never_converges_def first_pass)

lemma transpose_example: "transpose_mat [[1], [0]] = [[1, 0]]"
  by (simp add: transpose_mat_def ncols_def mcol_def)

text \<open>
  The claim as the specification states it fails: the loop below converges after its first
  complete pass and the driver returns \<open>iter = 0\<close>, not 1.
\<close>

theorem nmf_iter_field_counterexample:
  "converges_at
     (nmf_dense_iteration [[1], [0]] (transpose_mat [[1], [0]]) False 1 True 0 0 True 10 100 (1 / 10 ^ 8))
     (nmf_init [[1, 0]] 1 1) (1 / 1000) 1 \<and>
   res_iter (Rcpp_nmf_dense insertion_sort [[1], [0]] False [[1, 0]] (1 / 1000) True 0 0 100 True 10 100 (1 / 10 ^ 8)) = 0"
proof -
  have conv: "converges_at
     (nmf_dense_iteration [[1], [0]] [[1, 0]] False (Suc 0) True 0 0 True 10 100 (1 / 10 ^ 8))
     (nmf_init [[1, 0]] (Suc 0) (Suc 0)) (1 / 1000) (Suc 0)"
    using first_pass_converges [of "1 / 1000" "1 / 10 ^ 8"] by simp
  have "als_loop
     (nmf_dense_iteration [[1], [0]] [[1, 0]] False (Suc 0) True 0 0 True 10 100 (1 / 10 ^ 8))
     (1 / 1000) 100 0 (nmf_init [[1, 0]] (Suc 0) (Suc 0))
     = (nmf_dense_iteration [[1], [0]] [[1, 0]] False (Suc 0) True 0 0 True 10 100 (1 / 10 ^ 8)
          (nmf_init [[1, 0]] (Suc 0) (Suc 0)), 0)"
    by (subst als_loop.simps) (simp add: Let_def first_pass)
  then have "res_iter (Rcpp_nmf_dense insertion_sort [[1], [0]] False [[1, 0]] (1 / 1000) True 0 0 100 True 10 100 (1 / 10 ^ 8)) = 0"
    by (simp add: Rcpp_nmf_dense_def Let_def res_iter_finish transpose_example nrows_def ncols_def)
  with conv show ?thesis by (simp add: transpose_example)
qed

theorem nmf_iter_field_witness:
  "res_iter (Rcpp_nmf_dense insertion_sort [[1], [0]] False [[1, 0]] (1 / 1000) True 0 0 100 True 10 100 (1 / 10 ^ 8)) = 0 \<and>
   res_iter (Rcpp_nmf_dense insertion_sort [[1], [0]] False [[1, 0]] 0 True 0 0 1 True 10 100 (1 / 10 ^ 8)) = 1"
proof -
  let ?body = "nmf_dense_iteration [[1], [0]] [[1, 0]] False (Suc 0) True 0 0 True 10 100 (1 / 10 ^ 8)"
  let ?s0 = "nmf_init [[1, 0]] (Suc 0) (Suc 0)"
  have conv: "converges_at ?body ?s0 (1 / 1000) (Suc 0)"
    using first_pass_converges [of "1 / 1000" "1 / 10 ^ 8"] by simp
  have never: "never_converges ?body ?s0 0 (Suc 0)"
    using first_pass_converges [of 0 "1 / 10 ^ 8"] by simp
  have "\<forall>t. converges_at ?body ?s0 (1 / 1000) t \<and> t \<le> 100 \<longrightarrow>
          res_iter (Rcpp_nmf_dense insertion_sort [[1], [0]] False [[1, 0]] (1 / 1000) True 0 0 100 True 10 100 (1 / 10 ^ 8)) = t - 1"
    using nmf_iter_field [where A = "[[1], [0]]" and symmetric = False and w = "[[1, 0]]"
        and tol = "1 / 1000" and nonneg = True and ?L1_w = 0 and ?L1_h = 0 and maxit = 100
        and diag = True and fast_maxit = 10 and cd_maxit = 100 and cd_tol = "1 / 10 ^ 8"]
    by (simp add: transpose_example nrows_def ncols_def)
  with conv have first: "res_iter (Rcpp_nmf_dense insertion_sort [[1], [0]] False [[1, 0]] (1 / 1000) True 0 0 100 True 10 100 (1 / 10 ^ 8)) = 0"
    by fastforce
  have "res_iter (Rcpp_nmf_dense insertion_sort [[1], [0]] False [[1, 0]] 0 True 0 0 1 True 10 100 (1 / 10 ^ 8)) = 1
        \<longleftrightarrow> never_converges ?body ?s0 0 (Suc 0)"
    using nmf_iter_field [where A = "[[1], [0]]" and symmetric = False and w = "[[1, 0]]"
        and tol = 0 and nonneg = True and ?L1_w = 0 and ?L1_h = 0 and maxit = 1
        and diag = True and fast_maxit = 10 and cd_maxit = 100 and cd_tol = "1 / 10 ^ 8"]
    by (simp add: transpose_example nrows_def ncols_def)
  with never first show ?thesis by simp
qed

section \<open>Properties of the rank-2 drivers\<close>

lemma upd_prefix:
  "n < length xs \<Longrightarrow> (map f [0..<n] @ drop n xs)[n := f n] = map f [0..<Suc n] @ drop (Suc n) xs"
proof -
  assume n: "n < length xs"
  have "(map f [0..<n] @ drop n xs)[n := f n] = map f [0..<n] @ (drop n xs)[0 := f n]"
    by (simp add: list_update_append)
  also have "(drop n xs)[0 := f n] = f n # drop (Suc n) xs"
    using n by (simp add: Cons_nth_drop_Suc [symmetric])
  finally show ?thesis by simp
qed

lemma update_01_twice:
  "xs[0 := a, Suc 0 := b, 0 := c, Suc 0 := d] = xs[0 := c, Suc 0 := d]"
proof (cases xs)
  case Nil
  then show ?thesis by simp
next
  case (Cons x ys)
  then show ?thesis by (cases ys) simp_all
qed

lemma solve_columns2_fold:
  assumes "2 \<le> length M"
  shows "n \<le> length (M ! 0) \<Longrightarrow> n \<le> length (M ! 1) \<Longrightarrow>
   fold (\<lambda>i M'. set_col2 i (f i) M') [0..<n] M =
     (M[0 := map (\<lambda>i. fst (f i)) [0..<n] @ drop n (M ! 0)])
        [1 := map (\<lambda>i. snd (f i)) [0..<n] @ drop n (M ! 1)]"
proof (induction n)
  case 0
  then show ?case by simp
next
  case (Suc n)
  let ?R0 = "map (\<lambda>i. fst (f i)) [0..<n] @ drop n (M ! 0)"
  let ?R1 = "map (\<lambda>i. snd (f i)) [0..<n] @ drop n (M ! 1)"
  let ?X = "(M[0 := ?R0])[1 := ?R1]"
  from assms have len: "0 < length M" "1 < length M" by linarith+
  have X0: "?X ! 0 = ?R0" and X1: "?X ! 1 = ?R1"
    using len by simp_all
  have "fold (\<lambda>i M'. set_col2 i (f i) M') [0..<Suc n] M = set_col2 n (f n) ?X"
    using Suc by simp
  also have "\<dots> = (?X[0 := ?R0[n := fst (f n)]])[1 := ?R1[n := snd (f n)]]"
    by (simp only: set_col2_def X0 X1)
  also have "\<dots> = (M[0 := ?R0[n := fst (f n)]])[1 := ?R1[n := snd (f n)]]"
    by (simp add: update_01_twice)
  also have "?R0[n := fst (f n)] = map (\<lambda>i. fst (f i)) [0..<Suc n] @ drop (Suc n) (M ! 0)"
    using Suc.prems by (intro upd_prefix) simp
  also have "?R1[n := snd (f n)] = map (\<lambda>i. snd (f i)) [0..<Suc n] @ drop (Suc n) (M ! 1)"
    using Suc.prems by (intro upd_prefix) simp
  finally show ?case .
qed

lemma solve_columns2_nth:
  assumes "2 \<le> length M" "n \<le> length (M ! 0)" "n \<le> length (M ! 1)" "i < n"
  shows "(solve_columns2 a denom nonneg rhs n M ! 0 ! i, solve_columns2 a denom nonneg rhs n M ! 1 ! i)
         = nnls2 a denom nonneg (fst (rhs i)) (snd (rhs i))"
proof -
  from assms have len: "0 < length M" "1 < length M" by linarith+
  show ?thesis
    using assms len
    by (simp add: solve_columns2_def
      solve_columns2_fold [where f = "\<lambda>i. nnls2 a denom nonneg (fst (rhs i)) (snd (rhs i))"]
      nth_append)
qed

lemma nnls2_kkt:
  "nnls2 a (denom2 a) True b0 b1 = spec_kkt_cases (a ! 0 ! 0) (a ! 0 ! 1) (a ! 1 ! 1) b0 b1"
  by (simp add: nnls2_def spec_kkt_cases_def denom2_def Let_def power2_eq_square)

text \<open>
  Claim C6. With \<open>nonneg = true\<close>, every column the rank-2 drivers solve, in the update of
  \<open>w\<close> and in the update of \<open>h\<close>, sparse and dense, is the result of the three-way case
  analysis for the shared matrix \<open>a\<close> (\<open>h * h.transpose()\<close> or \<open>w * w.transpose()\<close>,
  positive definite or not), with \<open>denom = a00 * a11 - a01\<^sup>2\<close>, and the right-hand side
  of that column. The matrix that receives the solutions has two rows with at least as
  many columns as the loop visits.
\<close>

theorem rank2_kkt_cases:
  "(i < nrows A \<and> 2 \<le> length w \<and> nrows A \<le> length (w ! 0) \<and> nrows A \<le> length (w ! 1) \<longrightarrow>
      (nmf2_dense_update_w A True h w ! 0 ! i, nmf2_dense_update_w A True h w ! 1 ! i)
        = spec_kkt_cases (mult_transpose h h ! 0 ! 0) (mult_transpose h h ! 0 ! 1) (mult_transpose h h ! 1 ! 1)
            (wb_dense A h ! 0 ! i) (wb_dense A h ! 1 ! i)) \<and>
   (i < ncols A \<and> 2 \<le> length h \<and> ncols A \<le> length (h ! 0) \<and> ncols A \<le> length (h ! 1) \<longrightarrow>
      (nmf2_dense_update_h A True w h ! 0 ! i, nmf2_dense_update_h A True w h ! 1 ! i)
        = spec_kkt_cases (mult_transpose w w ! 0 ! 0) (mult_transpose w w ! 0 ! 1) (mult_transpose w w ! 1 ! 1)
            (fst (rhs2_dense A w i)) (snd (rhs2_dense A w i))) \<and>
   (i < sp_rows As \<and> 2 \<le> length w \<and> sp_rows As \<le> length (w ! 0) \<and> sp_rows As \<le> length (w ! 1) \<longrightarrow>
      (nmf2_sparse_update_w As True h w ! 0 ! i, nmf2_sparse_update_w As True h w ! 1 ! i)
        = spec_kkt_cases (mult_transpose h h ! 0 ! 0) (mult_transpose h h ! 0 ! 1) (mult_transpose h h ! 1 ! 1)
            (wb_sparse As h ! 0 ! i) (wb_sparse As h ! 1 ! i)) \<and>
   (i < sp_cols As \<and> 2 \<le> length h \<and> sp_cols As \<le> length (h ! 0) \<and> sp_cols As \<le> length (h ! 1) \<longrightarrow>
      (nmf2_sparse_update_h As True w h ! 0 ! i, nmf2_sparse_update_h As True w h ! 1 ! i)
        = spec_kkt_cases (mult_transpose w w ! 0 ! 0) (mult_transpose w w ! 0 ! 1) (mult_transpose w w ! 1 ! 1)
            (fst (rhs2_sparse As w i)) (snd (rhs2_sparse As w i)))"
proof -
  have col: "(solve_columns2 a (denom2 a) True rhs n M ! 0 ! i,
              solve_columns2 a (denom2 a) True rhs n M ! 1 ! i)
             = spec_kkt_cases (a ! 0 ! 0) (a ! 0 ! 1) (a ! 1 ! 1) (fst (rhs i)) (snd (rhs i))"
    if "i < n" "2 \<le> length M" "n \<le> length (M ! 0)" "n \<le> length (M ! 1)" for a rhs n M
    using solve_columns2_nth [OF that(2-4) that(1), of a "denom2 a" True rhs]
    by (simp only: nnls2_kkt)
  show ?thesis
    unfolding nmf2_dense_update_w_def nmf2_dense_update_h_def nmf2_sparse_update_w_def
      nmf2_sparse_update_h_def Let_def
    by (intro conjI impI; elim conjE; subst col; simp)
qed


lemma wb_dense_example: "wb_dense [[1, 0], [0, 2]] [[1, 1], [0, 1]] = [[1, 2], [0, 2]]"
  by (simp add: wb_dense_def wb_add_def nrows_def ncols_def upt_0_2 numeral_2_eq_2)

text \<open>
  The three cases on one matrix, \<open>a = (2, 4; 4, 10)\<close> with \<open>denom = 4\<close>: the right-hand sides
  \<open>(1, 3)\<close>, \<open>(1, 1)\<close> and \<open>(6, 14)\<close> give \<open>x0 = 0\<close>, then \<open>x1 = 0\<close>, then the unconstrained
  solution \<open>(1, 1)\<close>, in each of the four updates.
\<close>

theorem rank2_kkt_cases_witness:
  "((nmf2_dense_update_w [[0, 1], [1, 0], [2, 4]] True [[1, 1], [1, 3]] [[0, 0, 0], [0, 0, 0]] ! 0 ! 0,
     nmf2_dense_update_w [[0, 1], [1, 0], [2, 4]] True [[1, 1], [1, 3]] [[0, 0, 0], [0, 0, 0]] ! 1 ! 0)
      = (0, 3 / 10) \<and>
    (nmf2_dense_update_w [[0, 1], [1, 0], [2, 4]] True [[1, 1], [1, 3]] [[0, 0, 0], [0, 0, 0]] ! 0 ! 1,
     nmf2_dense_update_w [[0, 1], [1, 0], [2, 4]] True [[1, 1], [1, 3]] [[0, 0, 0], [0, 0, 0]] ! 1 ! 1)
      = (1 / 2, 0) \<and>
    (nmf2_dense_update_w [[0, 1], [1, 0], [2, 4]] True [[1, 1], [1, 3]] [[0, 0, 0], [0, 0, 0]] ! 0 ! 2,
     nmf2_dense_update_w [[0, 1], [1, 0], [2, 4]] True [[1, 1], [1, 3]] [[0, 0, 0], [0, 0, 0]] ! 1 ! 2)
      = (1, 1)) \<and>
   ((nmf2_dense_update_h [[0, 1, 2], [1, 0, 4]] True [[1, 1], [1, 3]] [[0, 0, 0], [0, 0, 0]] ! 0 ! 0,
     nmf2_dense_update_h [[0, 1, 2], [1, 0, 4]] True [[1, 1], [1, 3]] [[0, 0, 0], [0, 0, 0]] ! 1 ! 0)
      = (0, 3 / 10) \<and>
    (nmf2_dense_update_h [[0, 1, 2], [1, 0, 4]] True [[1, 1], [1, 3]] [[0, 0, 0], [0, 0, 0]] ! 0 ! 1,
     nmf2_dense_update_h [[0, 1, 2], [1, 0, 4]] True [[1, 1], [1, 3]] [[0, 0, 0], [0, 0, 0]] ! 1 ! 1)
      = (1 / 2, 0) \<and>
    (nmf2_dense_update_h [[0, 1, 2], [1, 0, 4]] True [[1, 1], [1, 3]] [[0, 0, 0], [0, 0, 0]] ! 0 ! 2,
     nmf2_dense_update_h [[0, 1, 2], [1, 0, 4]] True [[1, 1], [1, 3]] [[0, 0, 0], [0, 0, 0]] ! 1 ! 2)
      = (1, 1)) \<and>
   ((nmf2_sparse_update_w \<lparr>sp_i = [1, 2, 0, 2], sp_p = [0, 2, 4], sp_Dim = [3, 2], sp_x = [1, 2, 1, 4]\<rparr>
       True [[1, 1], [1, 3]] [[0, 0, 0], [0, 0, 0]] ! 0 ! 0,
     nmf2_sparse_update_w \<lparr>sp_i = [1, 2, 0, 2], sp_p = [0, 2, 4], sp_Dim = [3, 2], sp_x = [1, 2, 1, 4]\<rparr>
       True [[1, 1], [1, 3]] [[0, 0, 0], [0, 0, 0]] ! 1 ! 0) = (0, 3 / 10) \<and>
    (nmf2_sparse_update_w \<lparr>sp_i = [1, 2, 0, 2], sp_p = [0, 2, 4], sp_Dim = [3, 2], sp_x = [1, 2, 1, 4]\<rparr>
       True [[1, 1], [1, 3]] [[0, 0, 0], [0, 0, 0]] ! 0 ! 1,
     nmf2_sparse_update_w \<lparr>sp_i = [1, 2, 0, 2], sp_p = [0, 2, 4], sp_Dim = [3, 2], sp_x = [1, 2, 1, 4]\<rparr>
       True [[1, 1], [1, 3]] [[0, 0, 0], [0, 0, 0]] ! 1 ! 1) = (1 / 2, 0) \<and>
    (nmf2_sparse_update_w \<lparr>sp_i = [1, 2, 0, 2], sp_p = [0, 2, 4], sp_Dim = [3, 2], sp_x = [1, 2, 1, 4]\<rparr>
       True [[1, 1], [1, 3]] [[0, 0, 0], [0, 0, 0]] ! 0 ! 2,
     nmf2_sparse_update_w \<lparr>sp_i = [1, 2, 0, 2], sp_p = [0, 2, 4], sp_Dim = [3, 2], sp_x = [1, 2, 1, 4]\<rparr>
       True [[1, 1], [1, 3]] [[0, 0, 0], [0, 0, 0]] ! 1 ! 2) = (1, 1)) \<and>
   ((nmf2_sparse_update_h \<lparr>sp_i = [1, 0, 0, 1], sp_p = [0, 1, 2, 4], sp_Dim = [2, 3], sp_x = [1, 1, 2, 4]\<rparr>
       True [[1, 1], [1, 3]] [[0, 0, 0], [0, 0, 0]] ! 0 ! 0,
     nmf2_sparse_update_h \<lparr>sp_i = [1, 0, 0, 1], sp_p = [0, 1, 2, 4], sp_Dim = [2, 3], sp_x = [1, 1, 2, 4]\<rparr>
       True [[1, 1], [1, 3]] [[0, 0, 0], [0, 0, 0]] ! 1 ! 0) = (0, 3 / 10) \<and>
    (nmf2_sparse_update_h \<lparr>sp_i = [1, 0, 0, 1], sp_p = [0, 1, 2, 4], sp_Dim = [2, 3], sp_x = [1, 1, 2, 4]\<rparr>
       True [[1, 1], [1, 3]] [[0, 0, 0], [0, 0, 0]] ! 0 ! 1,
     nmf2_sparse_update_h \<lparr>sp_i = [1, 0, 0, 1], sp_p = [0, 1, 2, 4], sp_Dim = [2, 3], sp_x = [1, 1, 2, 4]\<rparr>
       True [[1, 1], [1, 3]] [[0, 0, 0], [0, 0, 0]] ! 1 ! 1) = (1 / 2, 0) \<and>
    (nmf2_sparse_update_h \<lparr>sp_i = [1, 0, 0, 1], sp_p = [0, 1, 2, 4], sp_Dim = [2, 3], sp_x = [1, 1, 2, 4]\<rparr>
       True [[1, 1], [1, 3]] [[0, 0, 0], [0, 0, 0]] ! 0 ! 2,
     nmf2_sparse_update_h \<lparr>sp_i = [1, 0, 0, 1], sp_p = [0, 1, 2, 4], sp_Dim = [2, 3], sp_x = [1, 1, 2, 4]\<rparr>
       True [[1, 1], [1, 3]] [[0, 0, 0], [0, 0, 0]] ! 1 ! 2) = (1, 1))"
proof -
  let ?A = "[[0, 1], [1, 0], [2, 4 :: real]]"
  let ?B = "[[0, 1, 2], [1, 0, 4 :: real]]"
  let ?F = "[[1, 1], [1, 3 :: real]]"
  let ?Z = "[[0, 0, 0], [0, 0, 0 :: real]]"
  define As where "As = \<lparr>sp_i = [1, 2, 0, 2], sp_p = [0, 2, 4], sp_Dim = [3, 2], sp_x = [1, 2, 1, 4]\<rparr>"
  define Bs where "Bs = \<lparr>sp_i = [1, 0, 0, 1], sp_p = [0, 1, 2, 4], sp_Dim = [2, 3], sp_x = [1, 1, 2, 4]\<rparr>"
  have n3: "[0..<3] = [0, 1, 2]" by (simp add: upt_rec)
  have dims: "sp_rows As = 3" "sp_cols As = 2" "sp_rows Bs = 2" "sp_cols Bs = 3"
    "nrows ?A = 3" "ncols ?A = 2" "nrows ?B = 2" "ncols ?B = 3"
    by (simp_all add: As_def Bs_def sp_rows_def sp_cols_def nrows_def ncols_def)
  have ita: "InnerIterator As 0 = [(1, 1), (2, 2)]" "InnerIterator As (Suc 0) = [(0, 1), (2, 4)]"
    by (simp_all add: As_def InnerIterator_def upt_rec)
  have itb: "InnerIterator Bs 0 = [(1, 1)]" "InnerIterator Bs (Suc 0) = [(0, 1)]"
    "InnerIterator Bs 2 = [(0, 2), (1, 4)]"
    by (simp_all add: Bs_def InnerIterator_def upt_rec)
  have G: "mult_transpose ?F ?F = [[2, 4], [4, 10]]"
    by (simp add: mult_transpose_def dot_def)
  have wd: "wb_dense ?A ?F = [[1, 1, 6], [3, 1, 14]]"
    unfolding wb_dense_def dims
    by (simp add: wb_add_def upt_0_2 n3) (simp add: numeral_2_eq_2 numeral_3_eq_3)
  have ws: "wb_sparse As ?F = [[1, 1, 6], [3, 1, 14]]"
    unfolding wb_sparse_def dims
    by (simp add: wb_add_def upt_0_2 ita) (simp add: numeral_2_eq_2 numeral_3_eq_3)
  have rd: "rhs2_dense ?B ?F 0 = (1, 3)" "rhs2_dense ?B ?F (Suc 0) = (1, 1)"
    "rhs2_dense ?B ?F 2 = (6, 14)"
    unfolding rhs2_dense_def dims by (simp_all add: upt_0_2)
  have rs: "rhs2_sparse Bs ?F 0 = (1, 3)" "rhs2_sparse Bs ?F (Suc 0) = (1, 1)"
    "rhs2_sparse Bs ?F 2 = (6, 14)"
    by (simp_all add: rhs2_sparse_def itb)
  have k: "spec_kkt_cases 2 4 10 1 3 = (0, 3 / 10)" "spec_kkt_cases 2 4 10 1 1 = (1 / 2, 0)"
    "spec_kkt_cases 2 4 10 6 14 = (1, 1)"
    by (simp_all add: spec_kkt_cases_def)
  note W0 = rank2_kkt_cases [where i = 0 and A = ?A and As = As and h = ?F and w = ?Z]
  note W1 = rank2_kkt_cases [where i = 1 and A = ?A and As = As and h = ?F and w = ?Z]
  note W2 = rank2_kkt_cases [where i = 2 and A = ?A and As = As and h = ?F and w = ?Z]
  note H0 = rank2_kkt_cases [where i = 0 and A = ?B and As = Bs and w = ?F and h = ?Z]
  note H1 = rank2_kkt_cases [where i = 1 and A = ?B and As = Bs and w = ?F and h = ?Z]
  note H2 = rank2_kkt_cases [where i = 2 and A = ?B and As = Bs and w = ?F and h = ?Z]
  have "(nmf2_dense_update_w ?A True ?F ?Z ! 0 ! 0, nmf2_dense_update_w ?A True ?F ?Z ! 1 ! 0) = (0, 3 / 10)"
    "(nmf2_sparse_update_w As True ?F ?Z ! 0 ! 0, nmf2_sparse_update_w As True ?F ?Z ! 1 ! 0) = (0, 3 / 10)"
    using W0 by (simp_all add: dims G wd ws k)
  moreover have "(nmf2_dense_update_w ?A True ?F ?Z ! 0 ! 1, nmf2_dense_update_w ?A True ?F ?Z ! 1 ! 1) = (1 / 2, 0)"
    "(nmf2_sparse_update_w As True ?F ?Z ! 0 ! 1, nmf2_sparse_update_w As True ?F ?Z ! 1 ! 1) = (1 / 2, 0)"
    using W1 by (simp_all add: dims G wd ws k)
  moreover have "(nmf2_dense_update_w ?A True ?F ?Z ! 0 ! 2, nmf2_dense_update_w ?A True ?F ?Z ! 1 ! 2) = (1, 1)"
    "(nmf2_sparse_update_w As True ?F ?Z ! 0 ! 2, nmf2_sparse_update_w As True ?F ?Z ! 1 ! 2) = (1, 1)"
    using W2 by (simp_all add: dims G wd ws k)
  moreover have "(nmf2_dense_update_h ?B True ?F ?Z ! 0 ! 0, nmf2_dense_update_h ?B True ?F ?Z ! 1 ! 0) = (0, 3 / 10)"
    "(nmf2_sparse_update_h Bs True ?F ?Z ! 0 ! 0, nmf2_sparse_update_h Bs True ?F ?Z ! 1 ! 0) = (0, 3 / 10)"
    using H0 by (simp_all add: dims G rd rs k)
  moreover have "(nmf2_dense_update_h ?B True ?F ?Z ! 0 ! 1, nmf2_dense_update_h ?B True ?F ?Z ! 1 ! 1) = (1 / 2, 0)"
    "(nmf2_sparse_update_h Bs True ?F ?Z ! 0 ! 1, nmf2_sparse_update_h Bs True ?F ?Z ! 1 ! 1) = (1 / 2, 0)"
    using H1 by (simp_all add: dims G rd rs k)
  moreover have "(nmf2_dense_update_h ?B True ?F ?Z ! 0 ! 2, nmf2_dense_update_h ?B True ?F ?Z ! 1 ! 2) = (1, 1)"
    "(nmf2_sparse_update_h Bs True ?F ?Z ! 0 ! 2, nmf2_sparse_update_h Bs True ?F ?Z ! 1 ! 2) = (1, 1)"
    using H2 by (simp_all add: dims G rd rs k)
  ultimately show ?thesis by (simp only: As_def Bs_def simp_thms)
qed

text \<open>
  One pass of \<open>Rcpp_nmf2_dense\<close> on \<open>A = diag(1, 2)\<close>, started from \<open>h\<close> the identity, with
  \<open>nonneg\<close> and \<open>diag\<close>.
\<close>

lemma als_loop_one_pass: "fst (als_loop body tol (Suc 0) 0 s) = body s"
  by (simp add: als_loop.simps [of body tol "Suc 0" 0] als_loop.simps [of body tol "Suc 0" "Suc 0"] Let_def)

lemma nmf2_example_w:
  "nmf2_dense_update_w [[1, 0], [0, 2]] True [[1, 0], [0, 1]] [[0, 0], [0, 0]] = [[1, 0], [0, 2]]"
  by (simp add: nmf2_dense_update_w_def Let_def mult_transpose_def dot_def denom2_def
      wb_dense_def wb_add_def nrows_def ncols_def upt_0_2 numeral_2_eq_2
      solve_columns2_def set_col2_def nnls2_def)

lemma nmf2_example_h:
  assumes "0 < p" "0 < q"
  shows "nmf2_dense_update_h [[1, 0], [0, 2]] True [[p, 0], [0, q]] [[1, 0], [0, 1]]
         = [[1 / p, 0], [0, 2 / q]]"
  using assms
  by (simp add: nmf2_dense_update_h_def Let_def mult_transpose_def dot_def denom2_def
      rhs2_dense_def nrows_def ncols_def upt_0_2
      solve_columns2_def set_col2_def nnls2_def not_less mult_nonneg_nonneg)

lemma rescale_2x2:
  "rescale True 2 2 ([[a, b], [c, e]], [d0, d1]) =
     ([[a / (a + b + 1 / 10 ^ 15), b / (a + b + 1 / 10 ^ 15)],
       [c / (c + e + 1 / 10 ^ 15), e / (c + e + 1 / 10 ^ 15)]],
      [a + b + 1 / 10 ^ 15, c + e + 1 / 10 ^ 15])"
  by (simp add: rescale_def rescale_row_def Let_def upt_0_2)

lemma nmf2_example_pass:
  "nmf2_dense_iteration [[1, 0], [0, 2]] True True (nmf2_init [[1, 0], [0, 1]] 2) =
     \<lparr>st_w = [[1 / (1 + 1 / 10 ^ 15), 0], [0, 2 / (2 + 1 / 10 ^ 15)]],
      st_h = [[(1 + 1 / 10 ^ 15) / (1 + 2 / 10 ^ 15), 0], [0, (2 + 1 / 10 ^ 15) / (2 + 2 / 10 ^ 15)]],
      st_d = [1 + 2 / 10 ^ 15, 2 + 2 / 10 ^ 15],
      st_tol = cor [[(1 + 1 / 10 ^ 15) / (1 + 2 / 10 ^ 15), 0], [0, (2 + 1 / 10 ^ 15) / (2 + 2 / 10 ^ 15)]]
                 [[1, 0], [0, 1]]\<rparr>"
proof -
  have init: "nmf2_init [[1, 0], [0, 1]] 2 =
      \<lparr>st_w = [[0, 0], [0, 0]], st_h = [[1, 0], [0, 1]], st_d = [1, 1], st_tol = 1\<rparr>"
    by (simp add: nmf2_init_def numeral_2_eq_2)
  have dims: "nrows [[1, 0], [0, 2 :: real]] = 2" "ncols [[1, 0], [0, 2 :: real]] = 2"
    by (simp_all add: nrows_def ncols_def)
  show ?thesis
    unfolding nmf2_dense_iteration_def init dims Let_def
    by (simp add: nmf2_example_w rescale_2x2 nmf2_example_h)
qed

text \<open>
  Claim C2 fails on the code. One pass of \<open>Rcpp_nmf2_dense\<close> on \<open>A = diag(1, 2)\<close> from
  \<open>h\<close> the identity, with \<open>diag\<close>, leaves the loop with \<open>d(0) < d(1)\<close>, so the final sort
  runs. It swaps the two entries of \<open>d\<close>, but \<open>col(0).swap(row(0))\<close> exchanges \<open>w(1, 0)\<close> with
  \<open>w(0, 1)\<close> and \<open>h(1, 0)\<close> with \<open>h(0, 1)\<close>, not the rows: the returned \<open>w\<close> and \<open>h\<close> are the
  factors at the exit of the loop, unchanged, next to the swapped \<open>d\<close>.
\<close>

theorem nmf2_sort_leaves_factors:
  "st_d (nmf2_dense_iteration [[1, 0], [0, 2]] True True (nmf2_init [[1, 0], [0, 1]] 2))
     = [1 + 2 / 10 ^ 15, 2 + 2 / 10 ^ 15] \<and>
   st_w (nmf2_dense_iteration [[1, 0], [0, 2]] True True (nmf2_init [[1, 0], [0, 1]] 2))
     = [[1 / (1 + 1 / 10 ^ 15), 0], [0, 2 / (2 + 1 / 10 ^ 15)]] \<and>
   res_w (Rcpp_nmf2_dense [[1, 0], [0, 2]] [[1, 0], [0, 1]] (1 / 1000) True 1 True)
     = [[1 / (1 + 1 / 10 ^ 15), 0], [0, 2 / (2 + 1 / 10 ^ 15)]] \<and>
   res_h (Rcpp_nmf2_dense [[1, 0], [0, 2]] [[1, 0], [0, 1]] (1 / 1000) True 1 True)
     = [[(1 + 1 / 10 ^ 15) / (1 + 2 / 10 ^ 15), 0], [0, (2 + 1 / 10 ^ 15) / (2 + 2 / 10 ^ 15)]] \<and>
   res_d (Rcpp_nmf2_dense [[1, 0], [0, 2]] [[1, 0], [0, 1]] (1 / 1000) True 1 True)
     = [2 + 2 / 10 ^ 15, 1 + 2 / 10 ^ 15]"
proof -
  let ?body = "nmf2_dense_iteration [[1, 0], [0, 2]] True True"
  let ?s0 = "nmf2_init [[1, 0], [0, 1]] 2"
  obtain s it where run: "als_loop ?body (1 / 1000) (Suc 0) 0 ?s0 = (s, it)"
    by (cases "als_loop ?body (1 / 1000) (Suc 0) 0 ?s0") auto
  with als_loop_one_pass [of ?body "1 / 1000" ?s0] have s: "s = ?body ?s0" by simp
  have fin: "st_w s = [[1 / (1 + 1 / 10 ^ 15), 0], [0, 2 / (2 + 1 / 10 ^ 15)]]"
    "st_h s = [[(1 + 1 / 10 ^ 15) / (1 + 2 / 10 ^ 15), 0], [0, (2 + 1 / 10 ^ 15) / (2 + 2 / 10 ^ 15)]]"
    "st_d s = [1 + 2 / 10 ^ 15, 2 + 2 / 10 ^ 15]"
    unfolding s nmf2_example_pass by simp_all
  have "Rcpp_nmf2_dense [[1, 0], [0, 2]] [[1, 0], [0, 1]] (1 / 1000) True 1 True
        = nmf2_finish True (s, it)"
  proof -
    have "nrows [[1, 0], [0, 2 :: real]] = 2" by (simp add: nrows_def)
    then show ?thesis
      unfolding Rcpp_nmf2_dense_def using run by simp
  qed
  then show ?thesis
    unfolding nmf2_example_pass
    by (simp add: nmf2_finish_def fin swap_col0_row0_def transpose_mat_def ncols_def mcol_def upt_0_2)
qed

end
